theory Spec2Isabelle
  imports Complex_Main "HOL-Library.Monad_Syntax"
begin

section \<open>Arrays\<close>

text \<open>
  A \<open>jax.Array\<close> is modelled by its shape and its entries in row-major order.
  Floating-point entries are idealised as real numbers. A value of the array
  library always satisfies \<open>wf\<close>.

  Every operation of the array library that can raise returns an option;
  \<open>None\<close> stands for "the call does not return an array of reals": the
  library raises (a negative dimension, a reshape that does not fit, operands
  of an einsum that do not match), the result would hold NaN (a mean over an
  empty axis), or the shapes need a broadcasting rule beyond the two modelled
  in \<open>add_bcast\<close> and \<open>mul_tensor\<close>. The theorems below that give a result
  give it as \<open>Some\<close>.
\<close>

record tensor =
  shape :: "nat list"
  elems :: "real list"

definition wf :: "tensor \<Rightarrow> bool" where
  "wf t \<longleftrightarrow> length (elems t) = prod_list (shape t)"

definition scalar :: "real \<Rightarrow> tensor" where
  "scalar x = \<lparr>shape = [], elems = [x]\<rparr>"

definition item :: "tensor \<Rightarrow> real" where
  "item t = (case elems t of [] \<Rightarrow> 0 | x # _ \<Rightarrow> x)"

text \<open>Slices along axis 0, and their inverse (\<open>jnp.stack\<close>).\<close>

definition rows :: "tensor \<Rightarrow> tensor list" where
  "rows t = (case shape t of
      [] \<Rightarrow> []
    | n # s \<Rightarrow> map (\<lambda>i. \<lparr>shape = s,
                       elems = take (prod_list s) (drop (i * prod_list s) (elems t))\<rparr>)
                 [0..<n])"

definition stack :: "tensor list \<Rightarrow> tensor option" where
  "stack ts = (case ts of
      [] \<Rightarrow> None
    | t # _ \<Rightarrow> if \<forall>u \<in> set ts. shape u = shape t
               then Some \<lparr>shape = length ts # shape t, elems = concat (map elems ts)\<rparr>
               else None)"

text \<open>\<open>c * x\<close> for a Python float \<open>c\<close>, \<open>-x\<close>, \<open>x ** k\<close>.\<close>

definition smul :: "real \<Rightarrow> tensor \<Rightarrow> tensor" where
  "smul c t = \<lparr>shape = shape t, elems = map (\<lambda>x. c * x) (elems t)\<rparr>"

definition neg :: "tensor \<Rightarrow> tensor" where
  "neg t = \<lparr>shape = shape t, elems = map uminus (elems t)\<rparr>"

definition tpow :: "tensor \<Rightarrow> nat \<Rightarrow> tensor" where
  "tpow t k = \<lparr>shape = shape t, elems = map (\<lambda>x. x ^ k) (elems t)\<rparr>"

text \<open>
  \<open>a + b\<close>: elementwise on equal shapes; when \<open>b\<close> has one more, leading,
  axis than \<open>a\<close>, \<open>a\<close> is added to every slice of \<open>b\<close>.
\<close>

definition add_bcast :: "tensor \<Rightarrow> tensor \<Rightarrow> tensor option" where
  "add_bcast a b =
     (if shape a = shape b
      then Some \<lparr>shape = shape b, elems = map2 (+) (elems a) (elems b)\<rparr>
      else (case shape b of
              [] \<Rightarrow> None
            | n # s \<Rightarrow> if s = shape a
                       then Some \<lparr>shape = n # s,
                                  elems = concat (map (\<lambda>r. map2 (+) (elems a) (elems r)) (rows b))\<rparr>
                       else None))"

text \<open>\<open>a * b\<close> on equal shapes.\<close>

definition mul_tensor :: "tensor \<Rightarrow> tensor \<Rightarrow> tensor option" where
  "mul_tensor a b =
     (if shape a = shape b
      then Some \<lparr>shape = shape a, elems = map2 (*) (elems a) (elems b)\<rparr>
      else None)"

text \<open>\<open>jnp.mean(x, axis=0)\<close>, \<open>jnp.mean(x)\<close>, \<open>jnp.sum(x)\<close>, \<open>jnp.zeros_like(x)\<close>.\<close>

definition jnp_mean_axis0 :: "tensor \<Rightarrow> tensor option" where
  "jnp_mean_axis0 t = (case shape t of
      [] \<Rightarrow> None
    | n # s \<Rightarrow> if n = 0 \<or> \<not> wf t then None
               else Some \<lparr>shape = s,
                          elems = map (\<lambda>j. sum_list (map (\<lambda>r. elems r ! j) (rows t)) / real n)
                                      [0..<prod_list s]\<rparr>)"

definition jnp_mean :: "tensor \<Rightarrow> tensor option" where
  "jnp_mean t = (if elems t = [] then None
                 else Some (scalar (sum_list (elems t) / real (length (elems t)))))"

definition jnp_sum :: "tensor \<Rightarrow> tensor" where
  "jnp_sum t = scalar (sum_list (elems t))"

definition jnp_zeros_like :: "tensor \<Rightarrow> tensor" where
  "jnp_zeros_like t = \<lparr>shape = shape t, elems = replicate (prod_list (shape t)) 0\<rparr>"

text \<open>
  \<open>jnp.reshape(x, (n, -1))\<close>, \<open>jnp.reshape(x, (-1,))\<close> and
  \<open>jnp.reshape(x, s)\<close>.
\<close>

definition jnp_reshape_rows :: "tensor \<Rightarrow> int \<Rightarrow> tensor option" where
  "jnp_reshape_rows t n =
     (if n \<le> 0 \<or> length (elems t) mod nat n \<noteq> 0 then None
      else Some \<lparr>shape = [nat n, length (elems t) div nat n], elems = elems t\<rparr>)"

definition jnp_reshape_flat :: "tensor \<Rightarrow> tensor" where
  "jnp_reshape_flat t = \<lparr>shape = [length (elems t)], elems = elems t\<rparr>"

definition jnp_reshape :: "tensor \<Rightarrow> nat list \<Rightarrow> tensor option" where
  "jnp_reshape t s =
     (if length (elems t) = prod_list s then Some \<lparr>shape = s, elems = elems t\<rparr> else None)"

text \<open>\<open>jnp.einsum('nd,nd->n', a, b)\<close> and \<open>jnp.einsum('nd,ne,e->d', a, g, t)\<close>.\<close>

definition einsum_nd_nd_n :: "tensor \<Rightarrow> tensor \<Rightarrow> tensor option" where
  "einsum_nd_nd_n a b =
     (if length (shape a) = 2 \<and> shape b = shape a
      then Some \<lparr>shape = [hd (shape a)],
                 elems = map2 (\<lambda>r q. sum_list (map2 (*) (elems r) (elems q))) (rows a) (rows b)\<rparr>
      else None)"

definition einsum_nd_ne_e_d :: "tensor \<Rightarrow> tensor \<Rightarrow> tensor \<Rightarrow> tensor option" where
  "einsum_nd_ne_e_d a g t =
     (case (shape a, shape g, shape t) of
        ([n, d], [n', e], [e']) \<Rightarrow>
          if n' = n \<and> e' = e \<and> wf a \<and> wf g \<and> wf t
          then Some \<lparr>shape = [d],
                     elems = map (\<lambda>j. sum_list (map (\<lambda>i. sum_list (map (\<lambda>k.
                                   elems a ! (i * d + j) * elems g ! (i * e + k) * elems t ! k)
                                 [0..<e])) [0..<n])) [0..<d]\<rparr>
          else None
      | _ \<Rightarrow> None)"

text \<open>
  \<open>jax.vmap(solver, in_axes=(0, None))(x, ncc)\<close> and
  \<open>jax.vmap(csolver, in_axes=(0, None, None))(x, ncc, C)\<close>: the solver on
  every slice of \<open>x\<close>, the two outputs stacked.
\<close>

definition vmap_solver ::
  "(tensor \<Rightarrow> int \<Rightarrow> tensor \<times> tensor) \<Rightarrow> tensor \<Rightarrow> int \<Rightarrow> (tensor \<times> tensor) option" where
  "vmap_solver solver x ncc = do {
     let outs = map (\<lambda>r. solver r ncc) (rows x);
     Ak_z \<leftarrow> stack (map fst outs);
     Mk_z \<leftarrow> stack (map snd outs);
     Some (Ak_z, Mk_z)
   }"

definition vmap_csolver ::
  "(tensor \<Rightarrow> int \<Rightarrow> 'c \<Rightarrow> tensor \<times> tensor) \<Rightarrow> tensor \<Rightarrow> int \<Rightarrow> 'c \<Rightarrow> (tensor \<times> tensor) option" where
  "vmap_csolver csolver x ncc C = do {
     let outs = map (\<lambda>r. csolver r ncc C) (rows x);
     Ak_z \<leftarrow> stack (map fst outs);
     Mk_z \<leftarrow> stack (map snd outs);
     Some (Ak_z, Mk_z)
   }"

text \<open>
  \<open>jax.vmap(jax.grad(f))(x)\<close> on a one-dimensional \<open>x\<close>. The differentiation
  operator \<open>jax.grad\<close> of the library is a parameter \<open>grad\<close>: it takes a
  function on arrays and a scalar array and returns a scalar array.
\<close>

definition vmap_grad ::
  "((tensor \<Rightarrow> tensor) \<Rightarrow> tensor \<Rightarrow> tensor) \<Rightarrow> (tensor \<Rightarrow> tensor) \<Rightarrow> tensor \<Rightarrow> tensor" where
  "vmap_grad grad f x =
     \<lparr>shape = shape x, elems = map (\<lambda>z. item (grad f (scalar z))) (elems x)\<rparr>"

section \<open>Noise model\<close>

record 'k noise =
  sample :: "'k \<Rightarrow> int list \<Rightarrow> tensor option"
  log_prob :: "tensor \<Rightarrow> tensor"

text \<open>
  Class \<open>Normal\<close>. \<open>jax.random.normal\<close> is a parameter \<open>random_normal\<close>; it
  raises on a negative dimension.
\<close>

definition Normal_sample ::
  "('k \<Rightarrow> nat list \<Rightarrow> tensor) \<Rightarrow> 'k \<Rightarrow> int list \<Rightarrow> tensor option" where
  "Normal_sample random_normal seed sample_shape =
     (if \<exists>d \<in> set sample_shape. d < 0 then None
      else Some (random_normal seed (map nat sample_shape)))"

definition Normal_log_prob :: "tensor \<Rightarrow> tensor" where
  "Normal_log_prob inputs = smul (- 0.5) (tpow inputs 2)"

definition Normal :: "('k \<Rightarrow> nat list \<Rightarrow> tensor) \<Rightarrow> 'k noise" where
  "Normal random_normal =
     \<lparr>sample = Normal_sample random_normal, log_prob = Normal_log_prob\<rparr>"

section \<open>Perturbed solvers\<close>

type_synonym out = "tensor \<times> tensor \<times> tensor"

text \<open>
  \<open>1.0 / y\<close> on Python floats raises \<open>ZeroDivisionError\<close> when \<open>y\<close> is zero.
\<close>

definition py_float_div :: "real \<Rightarrow> real \<Rightarrow> real option" where
  "py_float_div x y = (if y = 0 then None else Some (x / y))"

subsection \<open>\<open>make_pert_solver\<close>\<close>

text \<open>
  The closure \<open>forward_pert(S, ncc, rng)\<close>; the variables it captures
  (\<open>solver\<close>, \<open>num_samples\<close>, \<open>sigma\<close>, \<open>noise\<close>) come first.
\<close>

definition forward_pert ::
  "(tensor \<Rightarrow> int \<Rightarrow> tensor \<times> tensor) \<Rightarrow> int \<Rightarrow> real \<Rightarrow> 'k noise
     \<Rightarrow> tensor \<Rightarrow> int \<Rightarrow> 'k \<Rightarrow> out option" where
  "forward_pert solver num_samples sigma noise S ncc rng = do {
     samples \<leftarrow> sample noise rng (num_samples # map int (shape S));
     x \<leftarrow> add_bcast S (smul sigma samples);
     (Ak_z, Mk_z) \<leftarrow> vmap_solver solver x ncc;
     Akeps \<leftarrow> jnp_mean_axis0 Ak_z;
     Mkeps \<leftarrow> jnp_mean_axis0 Mk_z;
     x' \<leftarrow> add_bcast S (smul sigma samples);
     x2 \<leftarrow> jnp_reshape_rows x' num_samples;
     a2 \<leftarrow> jnp_reshape_rows Ak_z num_samples;
     max_values \<leftarrow> einsum_nd_nd_n x2 a2;
     Fkeps \<leftarrow> jnp_mean max_values;
     Some (Akeps, Fkeps, Mkeps)
   }"

text \<open>
  The rule \<open>pert_jvp(tangent, _, S, ncc, rng)\<close>; its second argument, the
  primal output, is not used.
\<close>

definition pert_jvp ::
  "((tensor \<Rightarrow> tensor) \<Rightarrow> tensor \<Rightarrow> tensor)
     \<Rightarrow> (tensor \<Rightarrow> int \<Rightarrow> tensor \<times> tensor) \<Rightarrow> int \<Rightarrow> real \<Rightarrow> 'k noise
     \<Rightarrow> tensor \<Rightarrow> out \<Rightarrow> tensor \<Rightarrow> int \<Rightarrow> 'k \<Rightarrow> out option" where
  "pert_jvp grad solver num_samples sigma noise tangent primal_out S ncc rng = do {
     samples \<leftarrow> sample noise rng (num_samples # map int (shape S));
     x \<leftarrow> add_bcast S (smul sigma samples);
     (Ak_z, Mk_z) \<leftarrow> vmap_solver solver x ncc;
     let nabla_z_flat = neg (vmap_grad grad (log_prob noise) (jnp_reshape_flat samples));
     c \<leftarrow> py_float_div 1 (of_int num_samples * sigma);
     a2 \<leftarrow> jnp_reshape_rows Ak_z num_samples;
     g2 \<leftarrow> jnp_reshape_rows nabla_z_flat num_samples;
     e \<leftarrow> einsum_nd_ne_e_d a2 g2 (jnp_reshape_flat tangent);
     let tangent_flat = smul c e;
     jvp_argmax \<leftarrow> jnp_reshape tangent_flat (shape S);
     pert_argmax \<leftarrow> jnp_mean_axis0 Ak_z;
     p \<leftarrow> mul_tensor pert_argmax tangent;
     let jvp_max = jnp_sum p;
     Some (jvp_argmax, jvp_max, jnp_zeros_like tangent)
   }"

text \<open>
  The value \<open>make_pert_solver\<close> returns: \<open>forward_pert\<close> together with the
  rules attached by \<open>forward_pert.defjvps(pert_jvp, None, None)\<close>, one entry
  per argument of \<open>forward_pert\<close>. The constructor has no failure path; it
  returns an option so that this can be stated.
\<close>

record 'k pert_solver =
  forward :: "tensor \<Rightarrow> int \<Rightarrow> 'k \<Rightarrow> out option"
  jvps :: "(tensor \<Rightarrow> out \<Rightarrow> tensor \<Rightarrow> int \<Rightarrow> 'k \<Rightarrow> out option) option list"

definition make_pert_solver ::
  "((tensor \<Rightarrow> tensor) \<Rightarrow> tensor \<Rightarrow> tensor)
     \<Rightarrow> (tensor \<Rightarrow> int \<Rightarrow> tensor \<times> tensor) \<Rightarrow> int \<Rightarrow> real \<Rightarrow> 'k noise
     \<Rightarrow> 'k pert_solver option" where
  "make_pert_solver grad solver num_samples sigma noise =
     Some \<lparr>forward = forward_pert solver num_samples sigma noise,
           jvps = [Some (pert_jvp grad solver num_samples sigma noise), None, None]\<rparr>"

subsection \<open>\<open>make_pert_csolver\<close>\<close>

definition forward_pert_c ::
  "(tensor \<Rightarrow> int \<Rightarrow> 'c \<Rightarrow> tensor \<times> tensor) \<Rightarrow> int \<Rightarrow> real \<Rightarrow> 'k noise
     \<Rightarrow> tensor \<Rightarrow> int \<Rightarrow> 'c \<Rightarrow> 'k \<Rightarrow> out option" where
  "forward_pert_c csolver num_samples sigma noise S ncc C rng = do {
     samples \<leftarrow> sample noise rng (num_samples # map int (shape S));
     x \<leftarrow> add_bcast S (smul sigma samples);
     (AkM_z, MkM_z) \<leftarrow> vmap_csolver csolver x ncc C;
     AkMeps \<leftarrow> jnp_mean_axis0 AkM_z;
     MkMeps \<leftarrow> jnp_mean_axis0 MkM_z;
     x' \<leftarrow> add_bcast S (smul sigma samples);
     x2 \<leftarrow> jnp_reshape_rows x' num_samples;
     a2 \<leftarrow> jnp_reshape_rows AkM_z num_samples;
     max_values \<leftarrow> einsum_nd_nd_n x2 a2;
     FkMeps \<leftarrow> jnp_mean max_values;
     Some (AkMeps, FkMeps, MkMeps)
   }"

definition pert_jvp_c ::
  "((tensor \<Rightarrow> tensor) \<Rightarrow> tensor \<Rightarrow> tensor)
     \<Rightarrow> (tensor \<Rightarrow> int \<Rightarrow> 'c \<Rightarrow> tensor \<times> tensor) \<Rightarrow> int \<Rightarrow> real \<Rightarrow> 'k noise
     \<Rightarrow> tensor \<Rightarrow> out \<Rightarrow> tensor \<Rightarrow> int \<Rightarrow> 'c \<Rightarrow> 'k \<Rightarrow> out option" where
  "pert_jvp_c grad csolver num_samples sigma noise tangent primal_out S ncc C rng = do {
     samples \<leftarrow> sample noise rng (num_samples # map int (shape S));
     x \<leftarrow> add_bcast S (smul sigma samples);
     (AkM_z, MkM_z) \<leftarrow> vmap_csolver csolver x ncc C;
     let nabla_z_flat = neg (vmap_grad grad (log_prob noise) (jnp_reshape_flat samples));
     c \<leftarrow> py_float_div 1 (of_int num_samples * sigma);
     a2 \<leftarrow> jnp_reshape_rows AkM_z num_samples;
     g2 \<leftarrow> jnp_reshape_rows nabla_z_flat num_samples;
     e \<leftarrow> einsum_nd_ne_e_d a2 g2 (jnp_reshape_flat tangent);
     let tangent_flat = smul c e;
     jvp_argmax \<leftarrow> jnp_reshape tangent_flat (shape S);
     pert_argmax \<leftarrow> jnp_mean_axis0 AkM_z;
     p \<leftarrow> mul_tensor pert_argmax tangent;
     let jvp_max = jnp_sum p;
     Some (jvp_argmax, jvp_max, jnp_zeros_like tangent)
   }"

text \<open>
  \<open>forward_pert.defjvps(pert_jvp, None, None, None)\<close>. The parameter
  \<open>use_bias\<close> occurs nowhere in the body of \<open>make_pert_csolver\<close>.
\<close>

record ('c, 'k) pert_csolver =
  cforward :: "tensor \<Rightarrow> int \<Rightarrow> 'c \<Rightarrow> 'k \<Rightarrow> out option"
  cjvps :: "(tensor \<Rightarrow> out \<Rightarrow> tensor \<Rightarrow> int \<Rightarrow> 'c \<Rightarrow> 'k \<Rightarrow> out option) option list"

definition make_pert_csolver ::
  "((tensor \<Rightarrow> tensor) \<Rightarrow> tensor \<Rightarrow> tensor)
     \<Rightarrow> (tensor \<Rightarrow> int \<Rightarrow> 'c \<Rightarrow> tensor \<times> tensor) \<Rightarrow> int \<Rightarrow> real \<Rightarrow> 'k noise \<Rightarrow> bool
     \<Rightarrow> ('c, 'k) pert_csolver option" where
  "make_pert_csolver grad csolver num_samples sigma noise use_bias =
     Some \<lparr>cforward = forward_pert_c csolver num_samples sigma noise,
           cjvps = [Some (pert_jvp_c grad csolver num_samples sigma noise), None, None, None]\<rparr>"

subsection \<open>The prefix shared by the forward evaluation and the rule\<close>

text \<open>
  The local variables \<open>samples\<close>, \<open>Ak_z\<close>, \<open>Mk_z\<close> as \<open>forward_pert\<close>
  computes them, and as \<open>pert_jvp\<close> computes them.
\<close>

definition forward_pert_locals ::
  "(tensor \<Rightarrow> int \<Rightarrow> tensor \<times> tensor) \<Rightarrow> int \<Rightarrow> real \<Rightarrow> 'k noise
     \<Rightarrow> tensor \<Rightarrow> int \<Rightarrow> 'k \<Rightarrow> (tensor \<times> tensor \<times> tensor) option" where
  "forward_pert_locals solver num_samples sigma noise S ncc rng = do {
     samples \<leftarrow> sample noise rng (num_samples # map int (shape S));
     x \<leftarrow> add_bcast S (smul sigma samples);
     (Ak_z, Mk_z) \<leftarrow> vmap_solver solver x ncc;
     Some (samples, Ak_z, Mk_z)
   }"

definition pert_jvp_locals ::
  "(tensor \<Rightarrow> int \<Rightarrow> tensor \<times> tensor) \<Rightarrow> int \<Rightarrow> real \<Rightarrow> 'k noise
     \<Rightarrow> tensor \<Rightarrow> out \<Rightarrow> tensor \<Rightarrow> int \<Rightarrow> 'k \<Rightarrow> (tensor \<times> tensor \<times> tensor) option" where
  "pert_jvp_locals solver num_samples sigma noise tangent primal_out S ncc rng = do {
     samples \<leftarrow> sample noise rng (num_samples # map int (shape S));
     x \<leftarrow> add_bcast S (smul sigma samples);
     (Ak_z, Mk_z) \<leftarrow> vmap_solver solver x ncc;
     Some (samples, Ak_z, Mk_z)
   }"

section \<open>Example inputs\<close>

text \<open>
  A generator that counts up from the seed, the differentiation operator at
  \<open>Normal.log_prob\<close>, and three solvers: a thresholding solver with an
  all-zero connectivity matrix, the same with a constraint argument it
  ignores, and one whose connectivity matrix has another shape than its input.
\<close>

definition toy_random_normal :: "nat \<Rightarrow> nat list \<Rightarrow> tensor" where
  "toy_random_normal seed s =
     \<lparr>shape = s, elems = map (\<lambda>i. real (seed + i) - 1) [0..<prod_list s]\<rparr>"

definition toy_grad :: "(tensor \<Rightarrow> tensor) \<Rightarrow> tensor \<Rightarrow> tensor" where
  "toy_grad f x = scalar (- item x)"

definition toy_solver :: "tensor \<Rightarrow> int \<Rightarrow> tensor \<times> tensor" where
  "toy_solver x ncc =
     (\<lparr>shape = shape x, elems = map (\<lambda>v. if 0 < v then 1 else 0) (elems x)\<rparr>,
      jnp_zeros_like x)"

definition toy_csolver :: "tensor \<Rightarrow> int \<Rightarrow> tensor \<Rightarrow> tensor \<times> tensor" where
  "toy_csolver x ncc C = toy_solver x ncc"

definition toy_solver_m :: "tensor \<Rightarrow> int \<Rightarrow> tensor \<times> tensor" where
  "toy_solver_m x ncc = (fst (toy_solver x ncc), \<lparr>shape = [1], elems = [0]\<rparr>)"

definition toy_S :: tensor where
  "toy_S = \<lparr>shape = [2], elems = [0, 1]\<rparr>"

definition toy_tangent :: tensor where
  "toy_tangent = \<lparr>shape = [2], elems = [1, 2]\<rparr>"

definition toy_out :: out where
  "toy_out = (\<lparr>shape = [2], elems = [1 / 2, 1]\<rparr>, scalar (7 / 4),
              \<lparr>shape = [2], elems = [0, 0]\<rparr>)"

section \<open>The specification's formulas\<close>

text \<open>
  The quantities of the specification, written per sample with indexed sums:
  the list of samples \<open>Z\<^sub>0, \<dots>\<close>, the perturbed input \<open>S + sigma * Z\<^sub>n\<close>, the
  per-sample solver outputs, the mean over samples, and the three outputs of
  the forward evaluation.
\<close>

definition spec_samples :: "'k noise \<Rightarrow> int \<Rightarrow> tensor \<Rightarrow> 'k \<Rightarrow> tensor list" where
  "spec_samples noise num_samples S rng =
     (case sample noise rng (num_samples # map int (shape S)) of
        None \<Rightarrow> [] | Some Z \<Rightarrow> rows Z)"

definition spec_perturbed :: "real \<Rightarrow> tensor \<Rightarrow> tensor \<Rightarrow> tensor" where
  "spec_perturbed sigma S z =
     \<lparr>shape = shape S,
      elems = map (\<lambda>j. elems S ! j + sigma * elems z ! j) [0..<prod_list (shape S)]\<rparr>"

definition spec_Ak_z ::
  "(tensor \<Rightarrow> int \<Rightarrow> tensor \<times> tensor) \<Rightarrow> real \<Rightarrow> tensor \<Rightarrow> int \<Rightarrow> tensor list \<Rightarrow> tensor list" where
  "spec_Ak_z solver sigma S ncc zs = map (\<lambda>z. fst (solver (spec_perturbed sigma S z) ncc)) zs"

definition spec_Mk_z ::
  "(tensor \<Rightarrow> int \<Rightarrow> tensor \<times> tensor) \<Rightarrow> real \<Rightarrow> tensor \<Rightarrow> int \<Rightarrow> tensor list \<Rightarrow> tensor list" where
  "spec_Mk_z solver sigma S ncc zs = map (\<lambda>z. snd (solver (spec_perturbed sigma S z) ncc)) zs"

definition mean_over_samples :: "tensor list \<Rightarrow> tensor" where
  "mean_over_samples ts =
     \<lparr>shape = shape (hd ts),
      elems = map (\<lambda>j. (\<Sum>i<length ts. elems (ts ! i) ! j) / real (length ts))
                  [0..<prod_list (shape (hd ts))]\<rparr>"

definition spec_A_eps ::
  "(tensor \<Rightarrow> int \<Rightarrow> tensor \<times> tensor) \<Rightarrow> int \<Rightarrow> real \<Rightarrow> 'k noise
     \<Rightarrow> tensor \<Rightarrow> int \<Rightarrow> 'k \<Rightarrow> tensor" where
  "spec_A_eps solver num_samples sigma noise S ncc rng =
     mean_over_samples (spec_Ak_z solver sigma S ncc (spec_samples noise num_samples S rng))"

definition spec_M_eps ::
  "(tensor \<Rightarrow> int \<Rightarrow> tensor \<times> tensor) \<Rightarrow> int \<Rightarrow> real \<Rightarrow> 'k noise
     \<Rightarrow> tensor \<Rightarrow> int \<Rightarrow> 'k \<Rightarrow> tensor" where
  "spec_M_eps solver num_samples sigma noise S ncc rng =
     mean_over_samples (spec_Mk_z solver sigma S ncc (spec_samples noise num_samples S rng))"

definition spec_F_eps ::
  "(tensor \<Rightarrow> int \<Rightarrow> tensor \<times> tensor) \<Rightarrow> int \<Rightarrow> real \<Rightarrow> 'k noise
     \<Rightarrow> tensor \<Rightarrow> int \<Rightarrow> 'k \<Rightarrow> tensor" where
  "spec_F_eps solver num_samples sigma noise S ncc rng =
     (let zs = spec_samples noise num_samples S rng;
          As = spec_Ak_z solver sigma S ncc zs
      in scalar ((\<Sum>i<length zs. \<Sum>j<prod_list (shape S).
                    elems (spec_perturbed sigma S (zs ! i)) ! j * elems (As ! i) ! j)
                 / real (length zs)))"

text \<open>
  The derivative rule of the specification: \<open>grad_log_noise\<close> of one sample,
  the directional derivative of \<open>A_eps\<close> and that of \<open>F_eps\<close>.
\<close>

definition spec_grad_log_noise ::
  "((tensor \<Rightarrow> tensor) \<Rightarrow> tensor \<Rightarrow> tensor) \<Rightarrow> 'k noise \<Rightarrow> tensor \<Rightarrow> real list" where
  "spec_grad_log_noise grad noise z =
     map (\<lambda>v. - item (grad (log_prob noise) (scalar v))) (elems z)"

definition spec_dA ::
  "((tensor \<Rightarrow> tensor) \<Rightarrow> tensor \<Rightarrow> tensor)
     \<Rightarrow> (tensor \<Rightarrow> int \<Rightarrow> tensor \<times> tensor) \<Rightarrow> int \<Rightarrow> real \<Rightarrow> 'k noise
     \<Rightarrow> tensor \<Rightarrow> tensor \<Rightarrow> int \<Rightarrow> 'k \<Rightarrow> tensor" where
  "spec_dA grad solver num_samples sigma noise t S ncc rng =
     (let zs = spec_samples noise num_samples S rng;
          As = spec_Ak_z solver sigma S ncc zs
      in \<lparr>shape = shape S,
          elems = map (\<lambda>j. 1 / (of_int num_samples * sigma) *
                            (\<Sum>i<length zs. elems (As ! i) ! j *
                               (\<Sum>k<length (elems t).
                                  spec_grad_log_noise grad noise (zs ! i) ! k * elems t ! k)))
                      [0..<prod_list (shape S)]\<rparr>)"

definition spec_dF :: "tensor \<Rightarrow> tensor \<Rightarrow> tensor" where
  "spec_dF A_eps t = scalar (\<Sum>j<length (elems t). elems A_eps ! j * elems t ! j)"

text \<open>
  What the specification requires of the collaborators at the call
  \<open>(S, ncc, rng)\<close>: a positive number of samples, a noise model whose batch
  \<open>Z\<close> has the requested shape, and a solver whose first output has the shape
  of its input and whose second output has one fixed shape \<open>msh\<close>.
\<close>

definition pert_contract ::
  "(tensor \<Rightarrow> int \<Rightarrow> tensor \<times> tensor) \<Rightarrow> int \<Rightarrow> 'k noise \<Rightarrow> tensor \<Rightarrow> int \<Rightarrow> 'k
     \<Rightarrow> nat list \<Rightarrow> bool" where
  "pert_contract solver num_samples noise S ncc rng msh \<longleftrightarrow>
     0 < num_samples \<and> wf S \<and>
     (\<exists>Z. sample noise rng (num_samples # map int (shape S)) = Some Z \<and>
          wf Z \<and> shape Z = nat num_samples # shape S) \<and>
     (\<forall>x. wf x \<and> shape x = shape S \<longrightarrow>
          wf (fst (solver x ncc)) \<and> shape (fst (solver x ncc)) = shape S \<and>
          wf (snd (solver x ncc)) \<and> shape (snd (solver x ncc)) = msh)"

text \<open>
  The operator \<open>grad\<close> differentiates \<open>f\<close> at every scalar.
\<close>

definition grad_sound ::
  "((tensor \<Rightarrow> tensor) \<Rightarrow> tensor \<Rightarrow> tensor) \<Rightarrow> (tensor \<Rightarrow> tensor) \<Rightarrow> bool" where
  "grad_sound grad f \<longleftrightarrow>
     (\<forall>v. ((\<lambda>r. item (f (scalar r))) has_real_derivative item (grad f (scalar v))) (at v))"

section \<open>Parity of the two wrappers\<close>

lemma vmap_csolver_ignores:
  assumes "\<forall>x. csolver x ncc C = solver x ncc"
  shows "vmap_csolver csolver x ncc C = vmap_solver solver x ncc"
  using assms by (simp add: vmap_csolver_def vmap_solver_def)

lemma forward_pert_c_ignores:
  assumes "\<forall>x. csolver x ncc C = solver x ncc"
  shows "forward_pert_c csolver n \<sigma> noise S ncc C rng = forward_pert solver n \<sigma> noise S ncc rng"
  using assms
  by (simp add: forward_pert_c_def forward_pert_def vmap_csolver_ignores [of csolver ncc C solver])

lemma pert_jvp_c_ignores:
  assumes "\<forall>x. csolver x ncc C = solver x ncc"
  shows "pert_jvp_c g csolver n \<sigma> noise t p S ncc C rng = pert_jvp g solver n \<sigma> noise t p S ncc rng"
  using assms
  by (simp add: pert_jvp_c_def pert_jvp_def vmap_csolver_ignores [of csolver ncc C solver])

text \<open>
  C7. When \<open>csolver\<close> ignores its constraint argument and agrees with
  \<open>solver\<close>, both constructors succeed, each attaches one rule (for \<open>S\<close>), and
  on every \<open>(S, ncc, C, rng)\<close>, tangent and primal output the constrained
  wrapper's forward evaluation and rule return exactly what the unconstrained
  wrapper's return on \<open>(S, ncc, rng)\<close>.
\<close>

theorem constrained_unconstrained_parity:
  assumes "\<forall>x k c. csolver x k c = solver x k"
  shows "\<exists>cw w cr r.
           make_pert_csolver g csolver n \<sigma> noise use_bias = Some cw \<and>
           make_pert_solver g solver n \<sigma> noise = Some w \<and>
           cjvps cw = [Some cr, None, None, None] \<and> jvps w = [Some r, None, None] \<and>
           cforward cw S ncc C rng = forward w S ncc rng \<and>
           cr t p S ncc C rng = r t p S ncc rng"
proof -
  have h: "\<forall>x. csolver x ncc C = solver x ncc" using assms by simp
  show ?thesis
    using forward_pert_c_ignores [of csolver ncc C solver n \<sigma> noise S rng]
      pert_jvp_c_ignores [of csolver ncc C solver g n \<sigma> noise t p S rng] h
    by (simp add: make_pert_csolver_def make_pert_solver_def)
qed

theorem constrained_unconstrained_parity_witness:
  "(\<forall>x k c. toy_csolver x k c = toy_solver x k) \<and>
   (\<exists>cw w cr r.
       make_pert_csolver toy_grad toy_csolver 2 (1 / 2) (Normal toy_random_normal) True = Some cw \<and>
       make_pert_solver toy_grad toy_solver 2 (1 / 2) (Normal toy_random_normal) = Some w \<and>
       cjvps cw = [Some cr, None, None, None] \<and> jvps w = [Some r, None, None] \<and>
       cforward cw toy_S 2 toy_tangent (0::nat) = forward w toy_S 2 0 \<and>
       cr toy_tangent toy_out toy_S 2 toy_tangent 0 = r toy_tangent toy_out toy_S 2 0)"
proof -
  have h: "\<forall>x k c. toy_csolver x k c = toy_solver x k" by (simp add: toy_csolver_def)
  show ?thesis
    by (rule conjI [OF h constrained_unconstrained_parity
          [where csolver = toy_csolver and solver = toy_solver, OF h]])
qed

section \<open>The flag \<open>use_bias\<close>\<close>


section \<open>Determinism and recomputation\<close>

lemma vmap_solver_cong:
  assumes "\<forall>x. solver1 x ncc = solver2 x ncc"
  shows "vmap_solver solver1 x ncc = vmap_solver solver2 x ncc"
  using assms by (simp add: vmap_solver_def)

lemma vmap_csolver_cong:
  assumes "\<forall>x. csolver1 x ncc C = csolver2 x ncc C"
  shows "vmap_csolver csolver1 x ncc C = vmap_csolver csolver2 x ncc C"
  using assms by (simp add: vmap_csolver_def)

text \<open>
  C5. Two calls of the forward evaluation on the same \<open>S\<close>, \<open>ncc\<close>, \<open>rng\<close>
  (and \<open>C\<close>) return the same result. The collaborators seen by the two calls
  are \<open>noise1\<close>, \<open>solver1\<close>, \<open>csolver1\<close> and \<open>noise2\<close>, \<open>solver2\<close>,
  \<open>csolver2\<close>; purity says that \<open>sample\<close> returns the same batch for the same
  seed and shape and that the solvers return the same outputs for the same
  arguments. Nothing else of the collaborators (such as \<open>log_prob\<close>) matters.
\<close>

theorem forward_pert_deterministic:
  assumes "sample noise1 rng (n # map int (shape S)) = sample noise2 rng (n # map int (shape S))"
    and "\<forall>x. solver1 x ncc = solver2 x ncc"
    and "\<forall>x. csolver1 x ncc C = csolver2 x ncc C"
  shows "forward_pert solver1 n \<sigma> noise1 S ncc rng = forward_pert solver2 n \<sigma> noise2 S ncc rng \<and>
         forward_pert_c csolver1 n \<sigma> noise1 S ncc C rng =
           forward_pert_c csolver2 n \<sigma> noise2 S ncc C rng"
  using assms(1) vmap_solver_cong [of solver1 ncc solver2]
    vmap_csolver_cong [of csolver1 ncc C csolver2] assms(2,3)
  by (simp add: forward_pert_def forward_pert_c_def)

theorem forward_pert_deterministic_witness:
  "sample (Normal toy_random_normal) (0::nat) (2 # map int (shape toy_S)) =
     sample ((Normal toy_random_normal)\<lparr>log_prob := id\<rparr>) 0 (2 # map int (shape toy_S)) \<and>
   forward_pert toy_solver 2 (1 / 2) (Normal toy_random_normal) toy_S 2 (0::nat) =
     forward_pert toy_solver 2 (1 / 2) ((Normal toy_random_normal)\<lparr>log_prob := id\<rparr>) toy_S 2 0 \<and>
   forward_pert_c toy_csolver 2 (1 / 2) (Normal toy_random_normal) toy_S 2 toy_tangent (0::nat) =
     forward_pert_c toy_csolver 2 (1 / 2) ((Normal toy_random_normal)\<lparr>log_prob := id\<rparr>)
       toy_S 2 toy_tangent 0"
proof -
  have h: "sample (Normal toy_random_normal) (0::nat) (2 # map int (shape toy_S)) =
     sample ((Normal toy_random_normal)\<lparr>log_prob := id\<rparr>) 0 (2 # map int (shape toy_S))"
    by (simp add: Normal_def)
  have s: "\<forall>x. toy_solver x 2 = toy_solver x 2" by simp
  have c: "\<forall>x. toy_csolver x 2 toy_tangent = toy_csolver x 2 toy_tangent" by simp
  show ?thesis
    using h forward_pert_deterministic [of "Normal toy_random_normal" 0 2 toy_S
        "(Normal toy_random_normal)\<lparr>log_prob := id\<rparr>" toy_solver 2 toy_solver
        toy_csolver toy_tangent toy_csolver "1 / 2", OF h s c]
    by simp
qed

lemma forward_pert_via_locals:
  "forward_pert solver num_samples sigma noise S ncc rng = do {
     (samples, Ak_z, Mk_z) \<leftarrow> forward_pert_locals solver num_samples sigma noise S ncc rng;
     Akeps \<leftarrow> jnp_mean_axis0 Ak_z;
     Mkeps \<leftarrow> jnp_mean_axis0 Mk_z;
     x' \<leftarrow> add_bcast S (smul sigma samples);
     x2 \<leftarrow> jnp_reshape_rows x' num_samples;
     a2 \<leftarrow> jnp_reshape_rows Ak_z num_samples;
     max_values \<leftarrow> einsum_nd_nd_n x2 a2;
     Fkeps \<leftarrow> jnp_mean max_values;
     Some (Akeps, Fkeps, Mkeps)
   }"
  by (simp add: forward_pert_def forward_pert_locals_def split: bind_split prod.splits)

lemma pert_jvp_via_locals:
  "pert_jvp grad solver num_samples sigma noise tangent primal_out S ncc rng = do {
     (samples, Ak_z, Mk_z) \<leftarrow>
        pert_jvp_locals solver num_samples sigma noise tangent primal_out S ncc rng;
     let nabla_z_flat = neg (vmap_grad grad (log_prob noise) (jnp_reshape_flat samples));
     c \<leftarrow> py_float_div 1 (of_int num_samples * sigma);
     a2 \<leftarrow> jnp_reshape_rows Ak_z num_samples;
     g2 \<leftarrow> jnp_reshape_rows nabla_z_flat num_samples;
     e \<leftarrow> einsum_nd_ne_e_d a2 g2 (jnp_reshape_flat tangent);
     let tangent_flat = smul c e;
     jvp_argmax \<leftarrow> jnp_reshape tangent_flat (shape S);
     pert_argmax \<leftarrow> jnp_mean_axis0 Ak_z;
     p \<leftarrow> mul_tensor pert_argmax tangent;
     let jvp_max = jnp_sum p;
     Some (jvp_argmax, jvp_max, jnp_zeros_like tangent)
   }"
  by (simp add: pert_jvp_def pert_jvp_locals_def split: bind_split prod.splits)



section \<open>Configuration\<close>




section \<open>The derivative of \<open>M_eps\<close>\<close>

text \<open>
  C4, as the code has it. Whenever the rule returns, its third component is
  \<open>jnp.zeros_like(tangent)\<close>: the all-zero array of the tangent's shape (so it
  has the shape of \<open>M_eps\<close> when \<open>M_eps\<close> has the tangent's shape). The rule
  returns a triple, and \<open>defjvps\<close> attaches a rule for \<open>S\<close> only: none for
  \<open>ncc\<close>, \<open>C\<close> or \<open>rng\<close>.
\<close>

theorem pert_jvp_M_zero:
  "(pert_jvp g solver n \<sigma> noise t p S ncc rng = Some (dA, dF, dM) \<longrightarrow>
      dM = jnp_zeros_like t \<and> shape dM = shape t \<and> wf dM \<and> (\<forall>v \<in> set (elems dM). v = 0) \<and>
      (\<forall>A F M. forward_pert solver n \<sigma> noise S ncc rng = Some (A, F, M) \<and> shape M = shape t
         \<longrightarrow> shape dM = shape M)) \<and>
   (pert_jvp_c g csolver n \<sigma> noise t p S ncc C rng = Some (dA', dF', dM') \<longrightarrow>
      dM' = jnp_zeros_like t \<and> shape dM' = shape t \<and> wf dM' \<and> (\<forall>v \<in> set (elems dM'). v = 0) \<and>
      (\<forall>A F M. forward_pert_c csolver n \<sigma> noise S ncc C rng = Some (A, F, M) \<and> shape M = shape t
         \<longrightarrow> shape dM' = shape M)) \<and>
   (\<exists>r. map_option jvps (make_pert_solver g solver n \<sigma> noise) = Some [Some r, None, None]) \<and>
   (\<exists>r. map_option cjvps (make_pert_csolver g csolver n \<sigma> noise use_bias) =
          Some [Some r, None, None, None])"
proof -
  have z: "shape (jnp_zeros_like t) = shape t \<and> wf (jnp_zeros_like t) \<and>
           (\<forall>v \<in> set (elems (jnp_zeros_like t)). v = 0)"
    by (simp add: jnp_zeros_like_def wf_def)
  have a: "pert_jvp g solver n \<sigma> noise t p S ncc rng = Some (dA, dF, dM) \<longrightarrow>
           dM = jnp_zeros_like t"
    by (auto simp add: pert_jvp_def Let_def split: bind_splits prod.splits)
  have b: "pert_jvp_c g csolver n \<sigma> noise t p S ncc C rng = Some (dA', dF', dM') \<longrightarrow>
           dM' = jnp_zeros_like t"
    by (auto simp add: pert_jvp_c_def Let_def split: bind_splits prod.splits)
  show ?thesis
    using z a b by (auto simp add: make_pert_solver_def make_pert_csolver_def)
qed

theorem pert_jvp_M_zero_witness:
  "pert_jvp toy_grad toy_solver 2 (1 / 2) (Normal toy_random_normal) toy_tangent toy_out toy_S 2
     (0::nat) =
     Some (\<lparr>shape = [2], elems = [5, 4]\<rparr>, \<lparr>shape = [], elems = [5 / 2]\<rparr>,
           \<lparr>shape = [2], elems = [0, 0]\<rparr>) \<and>
   pert_jvp_c toy_grad toy_csolver 2 (1 / 2) (Normal toy_random_normal) toy_tangent toy_out toy_S 2
     toy_tangent (0::nat) =
     Some (\<lparr>shape = [2], elems = [5, 4]\<rparr>, \<lparr>shape = [], elems = [5 / 2]\<rparr>,
           \<lparr>shape = [2], elems = [0, 0]\<rparr>) \<and>
   forward_pert toy_solver 2 (1 / 2) (Normal toy_random_normal) toy_S 2 (0::nat) = Some toy_out \<and>
   forward_pert_c toy_csolver 2 (1 / 2) (Normal toy_random_normal) toy_S 2 toy_tangent (0::nat) =
     Some toy_out \<and>
   \<lparr>shape = [2], elems = [0, 0]\<rparr> = jnp_zeros_like toy_tangent \<and>
   shape \<lparr>shape = [2], elems = [0, 0]\<rparr> = shape (snd (snd toy_out))"
proof -
  have j: "pert_jvp toy_grad toy_solver 2 (1 / 2) (Normal toy_random_normal) toy_tangent toy_out
      toy_S 2 (0::nat) =
     Some (\<lparr>shape = [2], elems = [5, 4]\<rparr>, \<lparr>shape = [], elems = [5 / 2]\<rparr>,
           \<lparr>shape = [2], elems = [0, 0]\<rparr>)"
    by code_simp
  have jc: "pert_jvp_c toy_grad toy_csolver 2 (1 / 2) (Normal toy_random_normal) toy_tangent
      toy_out toy_S 2 toy_tangent (0::nat) =
     Some (\<lparr>shape = [2], elems = [5, 4]\<rparr>, \<lparr>shape = [], elems = [5 / 2]\<rparr>,
           \<lparr>shape = [2], elems = [0, 0]\<rparr>)"
    by code_simp
  have f: "forward_pert toy_solver 2 (1 / 2) (Normal toy_random_normal) toy_S 2 (0::nat) =
      Some toy_out"
    by code_simp
  have fc: "forward_pert_c toy_csolver 2 (1 / 2) (Normal toy_random_normal) toy_S 2 toy_tangent
      (0::nat) = Some toy_out"
    by code_simp
  have st: "shape (snd (snd toy_out)) = shape toy_tangent"
    by (simp add: toy_out_def toy_tangent_def)
  show ?thesis
    using j jc f fc st
      pert_jvp_M_zero [of toy_grad toy_solver 2 "1 / 2" "Normal toy_random_normal" toy_tangent
        toy_out toy_S 2 "0::nat" "\<lparr>shape = [2], elems = [5, 4]\<rparr>" "\<lparr>shape = [], elems = [5 / 2]\<rparr>"
        "\<lparr>shape = [2], elems = [0, 0]\<rparr>" toy_csolver toy_tangent
        "\<lparr>shape = [2], elems = [5, 4]\<rparr>" "\<lparr>shape = [], elems = [5 / 2]\<rparr>"
        "\<lparr>shape = [2], elems = [0, 0]\<rparr>" True]
    by (simp add: toy_tangent_def toy_out_def)
qed

text \<open>
  The claim C4 as stated fails where it gives \<open>d(M_eps)\<close> the shape of
  \<open>M_eps\<close>: for a solver whose connectivity output has shape \<open>[1]\<close> on an input
  of shape \<open>[2]\<close>, \<open>M_eps\<close> has shape \<open>[1]\<close> and the third component of the
  rule has shape \<open>[2]\<close>.
\<close>

theorem pert_jvp_M_shape_counterexample:
  "forward_pert toy_solver_m 2 (1 / 2) (Normal toy_random_normal) toy_S 2 (0::nat) =
     Some (\<lparr>shape = [2], elems = [1 / 2, 1]\<rparr>, \<lparr>shape = [], elems = [7 / 4]\<rparr>,
           \<lparr>shape = [1], elems = [0]\<rparr>) \<and>
   pert_jvp toy_grad toy_solver_m 2 (1 / 2) (Normal toy_random_normal) toy_tangent
       (\<lparr>shape = [2], elems = [1 / 2, 1]\<rparr>, \<lparr>shape = [], elems = [7 / 4]\<rparr>,
        \<lparr>shape = [1], elems = [0]\<rparr>) toy_S 2 (0::nat) =
     Some (\<lparr>shape = [2], elems = [5, 4]\<rparr>, \<lparr>shape = [], elems = [5 / 2]\<rparr>,
           \<lparr>shape = [2], elems = [0, 0]\<rparr>)"
  by code_simp

section \<open>The default noise model\<close>

lemma Normal_log_prob_scalar: "item (Normal_log_prob (scalar r)) = - 0.5 * r ^ 2"
  by (simp add: Normal_log_prob_def smul_def tpow_def scalar_def item_def)

lemma Normal_log_prob_deriv:
  "((\<lambda>r. item (Normal_log_prob (scalar r))) has_real_derivative - v) (at v)"
  unfolding Normal_log_prob_scalar
  by (auto intro!: derivative_eq_intros)

lemma grad_sound_Normal:
  assumes "grad_sound grad Normal_log_prob"
  shows "item (grad Normal_log_prob (scalar v)) = - v"
proof -
  have "((\<lambda>r. item (Normal_log_prob (scalar r))) has_real_derivative
           item (grad Normal_log_prob (scalar v))) (at v)"
    using assms by (simp add: grad_sound_def)
  then show ?thesis using Normal_log_prob_deriv [of v] by (rule DERIV_unique)
qed

lemma toy_grad_sound: "grad_sound toy_grad Normal_log_prob"
  unfolding grad_sound_def
proof
  fix v
  have "item (toy_grad Normal_log_prob (scalar v)) = - v"
    by (simp add: toy_grad_def scalar_def item_def)
  then show "((\<lambda>r. item (Normal_log_prob (scalar r))) has_real_derivative
           item (toy_grad Normal_log_prob (scalar v))) (at v)"
    using Normal_log_prob_deriv [of v] by simp
qed

text \<open>
  C10. \<open>Normal.log_prob\<close> is \<open>-0.5 * x ** 2\<close> on every entry of every array;
  its derivative at \<open>v\<close> is \<open>-v\<close>, so the negative gradient the rule computes
  from it (with a differentiation operator that is sound for it) is the
  array itself. \<open>Normal.sample\<close> returns what the library's generator returns
  for the seed and shape it is given, nothing else entering: the same seed and
  shape give the same array.
\<close>

theorem Normal_noise_model:
  "Normal_log_prob x = \<lparr>shape = shape x, elems = map (\<lambda>v. - 0.5 * v ^ 2) (elems x)\<rparr> \<and>
   log_prob (Normal rn) = Normal_log_prob \<and>
   ((\<lambda>r. item (Normal_log_prob (scalar r))) has_real_derivative - v) (at v) \<and>
   (grad_sound grad Normal_log_prob \<longrightarrow> neg (vmap_grad grad Normal_log_prob x) = x) \<and>
   ((\<forall>d \<in> set shp. 0 \<le> d) \<longrightarrow> sample (Normal rn) seed shp = Some (rn seed (map nat shp))) \<and>
   (rn seed (map nat shp) = rn' seed (map nat shp) \<longrightarrow>
      sample (Normal rn) seed shp = sample (Normal rn') seed shp)"
proof -
  have a: "Normal_log_prob x = \<lparr>shape = shape x, elems = map (\<lambda>v. - 0.5 * v ^ 2) (elems x)\<rparr>"
    by (simp add: Normal_log_prob_def smul_def tpow_def)
  have b: "grad_sound grad Normal_log_prob \<longrightarrow> neg (vmap_grad grad Normal_log_prob x) = x"
    by (simp add: neg_def vmap_grad_def grad_sound_Normal o_def)
  have c: "(\<forall>d \<in> set shp. 0 \<le> d) \<longrightarrow> sample (Normal rn) seed shp = Some (rn seed (map nat shp))"
    by (auto simp add: Normal_def Normal_sample_def not_le [symmetric])
  have d: "rn seed (map nat shp) = rn' seed (map nat shp) \<longrightarrow>
      sample (Normal rn) seed shp = sample (Normal rn') seed shp"
    by (simp add: Normal_def Normal_sample_def)
  show ?thesis using a b c d Normal_log_prob_deriv [of v] by (simp add: Normal_def)
qed

theorem Normal_noise_model_witness:
  "grad_sound toy_grad Normal_log_prob \<and>
   neg (vmap_grad toy_grad Normal_log_prob toy_S) = toy_S \<and>
   (0::int) \<le> 2 \<and>
   sample (Normal toy_random_normal) (0::nat) [2, 2] = Some (toy_random_normal 0 [2, 2]) \<and>
   Normal_log_prob toy_S = \<lparr>shape = [2], elems = [0, - 1 / 2]\<rparr>"
proof -
  have e: "(\<forall>d \<in> set [2, 2 :: int]. 0 \<le> d)" by simp
  have n: "map nat [2, 2] = [2, 2]" by simp
  show ?thesis
    using toy_grad_sound e n
      Normal_noise_model [of toy_S toy_random_normal 1 toy_grad "[2, 2]" "0::nat" toy_random_normal]
    by (simp add: toy_S_def)
qed

section \<open>Stacked arrays and their slices\<close>

lemma length_concat_uniform:
  "\<forall>xs \<in> set xss. length xs = k \<Longrightarrow> length (concat xss) = length xss * k"
  by (induction xss) simp_all

lemma chunk_concat:
  "\<forall>xs \<in> set xss. length xs = k \<Longrightarrow> i < length xss \<Longrightarrow>
     take k (drop (i * k) (concat xss)) = xss ! i"
proof (induction xss arbitrary: i)
  case Nil
  then show ?case by simp
next
  case (Cons xs xss)
  show ?case
  proof (cases i)
    case 0
    then show ?thesis using Cons.prems by simp
  next
    case (Suc m)
    then show ?thesis using Cons.prems Cons.IH [of m] by simp
  qed
qed

lemma nth_concat_uniform:
  assumes "\<forall>xs \<in> set xss. length xs = k" and "i < length xss" and "j < k"
  shows "concat xss ! (i * k + j) = xss ! i ! j"
proof -
  have "i * k + k \<le> length xss * k"
    using assms(2) by (metis Suc_leI mult_Suc mult_le_mono1 add.commute)
  then have le: "i * k + j < length (concat xss)"
    using assms(3) length_concat_uniform [OF assms(1)] by simp
  have "xss ! i ! j = take k (drop (i * k) (concat xss)) ! j"
    using chunk_concat [OF assms(1,2)] by simp
  also have "\<dots> = concat xss ! (i * k + j)"
    using assms(3) le by simp
  finally show ?thesis by simp
qed

lemma tensor_eta: "\<lparr>shape = shape (t::tensor), elems = elems t\<rparr> = t"
  by simp

lemma stack_uniform:
  assumes "ts \<noteq> []" and "\<forall>u \<in> set ts. shape u = s \<and> wf u"
  shows "stack ts = Some \<lparr>shape = length ts # s, elems = concat (map elems ts)\<rparr>"
  using assms by (cases ts) (auto simp add: stack_def)

lemma rows_stacked:
  assumes "\<forall>u \<in> set ts. shape u = s \<and> wf u"
  shows "rows \<lparr>shape = length ts # s, elems = concat (map elems ts)\<rparr> = ts"
proof (rule nth_equalityI)
  show "length (rows \<lparr>shape = length ts # s, elems = concat (map elems ts)\<rparr>) = length ts"
    by (simp add: rows_def)
next
  fix i
  assume "i < length (rows \<lparr>shape = length ts # s, elems = concat (map elems ts)\<rparr>)"
  then have i: "i < length ts" by (simp add: rows_def)
  have u: "\<forall>xs \<in> set (map elems ts). length xs = prod_list s"
    using assms by (auto simp add: wf_def)
  have "take (prod_list s) (drop (i * prod_list s) (concat (map elems ts))) = elems (ts ! i)"
    using chunk_concat [OF u, of i] i by simp
  moreover have "shape (ts ! i) = s" using assms i by simp
  ultimately show "rows \<lparr>shape = length ts # s, elems = concat (map elems ts)\<rparr> ! i = ts ! i"
    using i by (simp add: rows_def)
qed

lemma wf_stacked:
  assumes "\<forall>u \<in> set ts. shape u = s \<and> wf u"
  shows "wf \<lparr>shape = length ts # s, elems = concat (map elems ts)\<rparr>"
proof -
  have u: "\<forall>xs \<in> set (map elems ts). length xs = prod_list s"
    using assms by (auto simp add: wf_def)
  show ?thesis using length_concat_uniform [OF u] by (simp add: wf_def)
qed

lemma sum_list_map_nth:
  "sum_list (map f xs) = (\<Sum>i<length xs. f (xs ! i))"
proof -
  have "sum_list (map f xs) = (\<Sum>i = 0..<length (map f xs). map f xs ! i)"
    by (rule sum_list_sum_nth)
  then show ?thesis by (simp add: atLeast0LessThan)
qed

lemma mean_axis0_stacked:
  assumes "ts \<noteq> []" and "\<forall>u \<in> set ts. shape u = s \<and> wf u"
  shows "jnp_mean_axis0 \<lparr>shape = length ts # s, elems = concat (map elems ts)\<rparr> =
         Some (mean_over_samples ts)"
proof -
  have hd: "shape (hd ts) = s" using assms by (cases ts) simp_all
  show ?thesis
    using assms(1) wf_stacked [OF assms(2)] hd
    by (simp add: jnp_mean_axis0_def rows_stacked [OF assms(2)] mean_over_samples_def
        sum_list_map_nth)
qed

lemma reshape_rows_stacked:
  assumes "ts \<noteq> []" and "\<forall>u \<in> set ts. shape u = s \<and> wf u"
  shows "jnp_reshape_rows \<lparr>shape = length ts # s, elems = concat (map elems ts)\<rparr>
           (int (length ts)) =
         Some \<lparr>shape = [length ts, prod_list s], elems = concat (map elems ts)\<rparr>"
proof -
  have u: "\<forall>xs \<in> set (map elems ts). length xs = prod_list s"
    using assms by (auto simp add: wf_def)
  show ?thesis using assms(1) length_concat_uniform [OF u]
    by (simp add: jnp_reshape_rows_def)
qed

lemma rows_reshaped:
  assumes "\<forall>u \<in> set ts. shape u = s \<and> wf u"
  shows "rows \<lparr>shape = [length ts, prod_list s], elems = concat (map elems ts)\<rparr> =
         map (\<lambda>t. \<lparr>shape = [prod_list s], elems = elems t\<rparr>) ts"
proof (rule nth_equalityI)
  show "length (rows \<lparr>shape = [length ts, prod_list s], elems = concat (map elems ts)\<rparr>) =
        length (map (\<lambda>t. \<lparr>shape = [prod_list s], elems = elems t\<rparr>) ts)"
    by (simp add: rows_def)
next
  fix i
  assume "i < length (rows \<lparr>shape = [length ts, prod_list s], elems = concat (map elems ts)\<rparr>)"
  then have i: "i < length ts" by (simp add: rows_def)
  have u: "\<forall>xs \<in> set (map elems ts). length xs = prod_list s"
    using assms by (auto simp add: wf_def)
  have "take (prod_list s) (drop (i * prod_list s) (concat (map elems ts))) = elems (ts ! i)"
    using chunk_concat [OF u, of i] i by simp
  then show "rows \<lparr>shape = [length ts, prod_list s], elems = concat (map elems ts)\<rparr> ! i =
        map (\<lambda>t. \<lparr>shape = [prod_list s], elems = elems t\<rparr>) ts ! i"
    using i by (simp add: rows_def)
qed


lemma rows_wf:
  assumes "wf Z" and "shape Z = n # s"
  shows "length (rows Z) = n \<and> (\<forall>r \<in> set (rows Z). shape r = s \<and> wf r)"
proof -
  have len: "length (elems Z) = n * prod_list s" using assms by (simp add: wf_def)
  have "\<And>i. i < n \<Longrightarrow> i * prod_list s + prod_list s \<le> n * prod_list s"
    by (metis Suc_leI mult_Suc mult_le_mono1 add.commute)
  then have "\<And>i. i < n \<Longrightarrow>
      length (take (prod_list s) (drop (i * prod_list s) (elems Z))) = prod_list s"
    using len by fastforce
  then show ?thesis using assms(2) by (auto simp add: rows_def wf_def)
qed

lemma rows_smul: "rows (smul c Z) = map (smul c) (rows Z)"
  by (cases "shape Z") (simp_all add: rows_def smul_def take_map drop_map)

lemma spec_perturbed_wf: "shape (spec_perturbed \<sigma> S z) = shape S \<and> wf (spec_perturbed \<sigma> S z)"
  by (simp add: spec_perturbed_def wf_def)

lemma map2_nth:
  assumes "length xs = k" and "length ys = k"
  shows "map2 f xs ys = map (\<lambda>j. f (xs ! j) (ys ! j)) [0..<k]"
  using assms by (intro nth_equalityI) simp_all

lemma perturbed_row:
  assumes "wf S" and "wf r" and "shape r = shape S"
  shows "map2 (+) (elems S) (elems (smul \<sigma> r)) = elems (spec_perturbed \<sigma> S r)"
proof -
  have a: "length (elems S) = prod_list (shape S)" using assms(1) by (simp add: wf_def)
  have b: "length (elems (smul \<sigma> r)) = prod_list (shape S)"
    using assms(2,3) by (simp add: wf_def smul_def)
  have c: "length (elems r) = prod_list (shape S)" using assms(2,3) by (simp add: wf_def)
  show ?thesis unfolding map2_nth [OF a b] using c
    by (simp add: spec_perturbed_def smul_def)
qed

lemma add_bcast_batch:
  assumes "wf S" and "wf Z" and "shape Z = n # shape S"
  shows "add_bcast S (smul \<sigma> Z) =
         Some \<lparr>shape = length (map (spec_perturbed \<sigma> S) (rows Z)) # shape S,
               elems = concat (map elems (map (spec_perturbed \<sigma> S) (rows Z)))\<rparr>"
proof -
  have r: "length (rows Z) = n \<and> (\<forall>r \<in> set (rows Z). shape r = shape S \<and> wf r)"
    using rows_wf [OF assms(2,3)] .
  have sh: "shape (smul \<sigma> Z) = n # shape S" using assms(3) by (simp add: smul_def)
  have ne: "shape S \<noteq> n # shape S" by simp
  have "map (\<lambda>r. map2 (+) (elems S) (elems r)) (rows (smul \<sigma> Z)) =
        map elems (map (spec_perturbed \<sigma> S) (rows Z))"
    using r perturbed_row [OF assms(1)] by (simp add: rows_smul)
  then show ?thesis using sh r by (simp add: add_bcast_def)
qed

lemma sum_list_map2_nth:
  assumes "length xs = k" and "length ys = k"
  shows "sum_list (map2 (*) xs ys) = (\<Sum>j<k. xs ! j * (ys ! j :: real))"
  unfolding map2_nth [OF assms]
  by (simp add: sum_list_map_nth)

lemma einsum_nd_nd_n_rows:
  assumes "\<forall>u \<in> set xs. shape u = s \<and> wf u" and "\<forall>u \<in> set ys. shape u = s \<and> wf u"
    and "length ys = length xs"
  shows "einsum_nd_nd_n \<lparr>shape = [length xs, prod_list s], elems = concat (map elems xs)\<rparr>
            \<lparr>shape = [length ys, prod_list s], elems = concat (map elems ys)\<rparr> =
         Some \<lparr>shape = [length xs],
               elems = map (\<lambda>i. \<Sum>j<prod_list s. elems (xs ! i) ! j * elems (ys ! i) ! j)
                           [0..<length xs]\<rparr>"
proof -
  have "map2 (\<lambda>r q. sum_list (map2 (*) (elems r) (elems q)))
          (map (\<lambda>t. \<lparr>shape = [prod_list s], elems = elems t\<rparr>) xs)
          (map (\<lambda>t. \<lparr>shape = [prod_list s], elems = elems t\<rparr>) ys) =
        map (\<lambda>i. \<Sum>j<prod_list s. elems (xs ! i) ! j * elems (ys ! i) ! j) [0..<length xs]"
  proof (rule nth_equalityI)
    show "length (map2 (\<lambda>r q. sum_list (map2 (*) (elems r) (elems q)))
          (map (\<lambda>t. \<lparr>shape = [prod_list s], elems = elems t\<rparr>) xs)
          (map (\<lambda>t. \<lparr>shape = [prod_list s], elems = elems t\<rparr>) ys)) =
       length (map (\<lambda>i. \<Sum>j<prod_list s. elems (xs ! i) ! j * elems (ys ! i) ! j) [0..<length xs])"
      using assms(3) by simp
  next
    fix i
    assume "i < length (map2 (\<lambda>r q. sum_list (map2 (*) (elems r) (elems q)))
          (map (\<lambda>t. \<lparr>shape = [prod_list s], elems = elems t\<rparr>) xs)
          (map (\<lambda>t. \<lparr>shape = [prod_list s], elems = elems t\<rparr>) ys))"
    then have i: "i < length xs" "i < length ys" using assms(3) by simp_all
    have a: "length (elems (xs ! i)) = prod_list s" using assms(1) i by (simp add: wf_def)
    have b: "length (elems (ys ! i)) = prod_list s" using assms(2) i by (simp add: wf_def)
    show "map2 (\<lambda>r q. sum_list (map2 (*) (elems r) (elems q)))
          (map (\<lambda>t. \<lparr>shape = [prod_list s], elems = elems t\<rparr>) xs)
          (map (\<lambda>t. \<lparr>shape = [prod_list s], elems = elems t\<rparr>) ys) ! i =
       map (\<lambda>i. \<Sum>j<prod_list s. elems (xs ! i) ! j * elems (ys ! i) ! j) [0..<length xs] ! i"
      using i sum_list_map2_nth [OF a b] by simp
  qed
  then show ?thesis
    using assms(3)
    by (simp add: einsum_nd_nd_n_def rows_reshaped [OF assms(1)]
        rows_reshaped [OF assms(2), unfolded assms(3)])
qed


section \<open>The forward evaluation and the rule under the contract\<close>

lemma contract_samples:
  assumes "pert_contract solver n noise S ncc rng msh"
  obtains Z where "sample noise rng (n # map int (shape S)) = Some Z"
    and "wf Z" and "shape Z = nat n # shape S"
    and "spec_samples noise n S rng = rows Z"
    and "length (rows Z) = nat n" and "rows Z \<noteq> []"
    and "\<forall>r \<in> set (rows Z). shape r = shape S \<and> wf r"
proof -
  from assms obtain Z where Z: "sample noise rng (n # map int (shape S)) = Some Z"
    "wf Z" "shape Z = nat n # shape S"
    by (auto simp add: pert_contract_def)
  have pos: "0 < n" using assms by (simp add: pert_contract_def)
  have r: "length (rows Z) = nat n \<and> (\<forall>r \<in> set (rows Z). shape r = shape S \<and> wf r)"
    using rows_wf [OF Z(2,3)] .
  then have ne: "rows Z \<noteq> []" using pos by auto
  show thesis using that [of Z] Z r ne by (simp add: spec_samples_def)
qed

lemma contract_outputs:
  assumes "pert_contract solver n noise S ncc rng msh"
    and "\<forall>r \<in> set zs. shape r = shape S \<and> wf r"
  shows "(\<forall>u \<in> set (map (spec_perturbed \<sigma> S) zs). shape u = shape S \<and> wf u) \<and>
         (\<forall>u \<in> set (spec_Ak_z solver \<sigma> S ncc zs). shape u = shape S \<and> wf u) \<and>
         (\<forall>u \<in> set (spec_Mk_z solver \<sigma> S ncc zs). shape u = msh \<and> wf u)"
proof -
  have c: "\<And>x. wf x \<Longrightarrow> shape x = shape S \<Longrightarrow>
          wf (fst (solver x ncc)) \<and> shape (fst (solver x ncc)) = shape S \<and>
          wf (snd (solver x ncc)) \<and> shape (snd (solver x ncc)) = msh"
    using assms(1) by (simp add: pert_contract_def)
  show ?thesis
    using c spec_perturbed_wf by (simp add: spec_Ak_z_def spec_Mk_z_def)
qed

lemma locals_value:
  assumes "pert_contract solver n noise S ncc rng msh"
    and "sample noise rng (n # map int (shape S)) = Some Z"
  shows "forward_pert_locals solver n \<sigma> noise S ncc rng =
         Some (Z,
           \<lparr>shape = length (spec_Ak_z solver \<sigma> S ncc (rows Z)) # shape S,
            elems = concat (map elems (spec_Ak_z solver \<sigma> S ncc (rows Z)))\<rparr>,
           \<lparr>shape = length (spec_Mk_z solver \<sigma> S ncc (rows Z)) # msh,
            elems = concat (map elems (spec_Mk_z solver \<sigma> S ncc (rows Z)))\<rparr>)"
proof -
  from contract_samples [OF assms(1)] obtain Z' where Z': "sample noise rng (n # map int (shape S)) = Some Z'"
    "wf Z'" "shape Z' = nat n # shape S" "rows Z' \<noteq> []"
    "\<forall>r \<in> set (rows Z'). shape r = shape S \<and> wf r"
    by blast
  then have Z: "wf Z" "shape Z = nat n # shape S" "rows Z \<noteq> []"
    "\<forall>r \<in> set (rows Z). shape r = shape S \<and> wf r"
    using assms(2) by simp_all
  have wfS: "wf S" using assms(1) by (simp add: pert_contract_def)
  have o: "(\<forall>u \<in> set (map (spec_perturbed \<sigma> S) (rows Z)). shape u = shape S \<and> wf u)"
    "(\<forall>u \<in> set (spec_Ak_z solver \<sigma> S ncc (rows Z)). shape u = shape S \<and> wf u)"
    "(\<forall>u \<in> set (spec_Mk_z solver \<sigma> S ncc (rows Z)). shape u = msh \<and> wf u)"
    using contract_outputs [OF assms(1) Z(4), of \<sigma>] by simp_all
  have neA: "spec_Ak_z solver \<sigma> S ncc (rows Z) \<noteq> []" using Z(3) by (simp add: spec_Ak_z_def)
  have neM: "spec_Mk_z solver \<sigma> S ncc (rows Z) \<noteq> []" using Z(3) by (simp add: spec_Mk_z_def)
  have fs: "map fst (map (\<lambda>r. solver r ncc) (map (spec_perturbed \<sigma> S) (rows Z))) =
            spec_Ak_z solver \<sigma> S ncc (rows Z)"
    by (simp add: spec_Ak_z_def o_def)
  have sn: "map snd (map (\<lambda>r. solver r ncc) (map (spec_perturbed \<sigma> S) (rows Z))) =
            spec_Mk_z solver \<sigma> S ncc (rows Z)"
    by (simp add: spec_Mk_z_def o_def)
  have v: "vmap_solver solver
             \<lparr>shape = length (map (spec_perturbed \<sigma> S) (rows Z)) # shape S,
              elems = concat (map elems (map (spec_perturbed \<sigma> S) (rows Z)))\<rparr> ncc =
           Some (\<lparr>shape = length (spec_Ak_z solver \<sigma> S ncc (rows Z)) # shape S,
                  elems = concat (map elems (spec_Ak_z solver \<sigma> S ncc (rows Z)))\<rparr>,
                 \<lparr>shape = length (spec_Mk_z solver \<sigma> S ncc (rows Z)) # msh,
                  elems = concat (map elems (spec_Mk_z solver \<sigma> S ncc (rows Z)))\<rparr>)"
    unfolding vmap_solver_def rows_stacked [OF o(1)] Let_def fs sn
      stack_uniform [OF neA o(2)] stack_uniform [OF neM o(3)]
    by simp
  show ?thesis
    using v by (simp add: forward_pert_locals_def assms(2) add_bcast_batch [OF wfS Z(1,2)])
qed


lemma sum_list_upt: "sum_list (map f [0..<N]) = (\<Sum>i<N. (f i :: real))"
  by (simp add: sum_list_map_nth)

lemma jnp_mean_upt:
  assumes "0 < N"
  shows "jnp_mean \<lparr>shape = [N], elems = map f [0..<N]\<rparr> = Some (scalar ((\<Sum>i<N. f i) / real N))"
  using assms by (simp add: jnp_mean_def sum_list_upt)

lemma forward_pert_value:
  assumes "pert_contract solver n noise S ncc rng msh"
  shows "forward_pert solver n \<sigma> noise S ncc rng =
         Some (spec_A_eps solver n \<sigma> noise S ncc rng,
               spec_F_eps solver n \<sigma> noise S ncc rng,
               spec_M_eps solver n \<sigma> noise S ncc rng)"
proof -
  from contract_samples [OF assms] obtain Z where
    Z: "sample noise rng (n # map int (shape S)) = Some Z"
      "wf Z" "shape Z = nat n # shape S" "spec_samples noise n S rng = rows Z"
      "length (rows Z) = nat n" "rows Z \<noteq> []"
      "\<forall>r \<in> set (rows Z). shape r = shape S \<and> wf r"
    by blast
  let ?zs = "rows Z"
  let ?Xs = "map (spec_perturbed \<sigma> S) ?zs"
  let ?As = "spec_Ak_z solver \<sigma> S ncc ?zs"
  let ?Ms = "spec_Mk_z solver \<sigma> S ncc ?zs"
  have pos: "0 < n" and wfS: "wf S" using assms by (simp_all add: pert_contract_def)
  have o: "\<forall>u \<in> set ?Xs. shape u = shape S \<and> wf u"
    "\<forall>u \<in> set ?As. shape u = shape S \<and> wf u"
    "\<forall>u \<in> set ?Ms. shape u = msh \<and> wf u"
    using contract_outputs [OF assms Z(7), of \<sigma>] by simp_all
  have ne: "?Xs \<noteq> []" "?As \<noteq> []" "?Ms \<noteq> []"
    using Z(6) by (simp_all add: spec_Ak_z_def spec_Mk_z_def)
  have len: "length ?As = length ?Xs" "length ?Ms = length ?Xs" "length ?Xs = length ?zs"
    by (simp_all add: spec_Ak_z_def spec_Mk_z_def)
  have n: "n = int (length ?Xs)" "n = int (length ?As)"
    using pos Z(5) by (simp_all add: spec_Ak_z_def)
  have lpos: "0 < length ?Xs" using ne(1) by simp
  have loc: "forward_pert_locals solver n \<sigma> noise S ncc rng =
         Some (Z, \<lparr>shape = length ?As # shape S, elems = concat (map elems ?As)\<rparr>,
                  \<lparr>shape = length ?Ms # msh, elems = concat (map elems ?Ms)\<rparr>)"
    using locals_value [OF assms Z(1)] .
  have mA: "jnp_mean_axis0 \<lparr>shape = length ?As # shape S, elems = concat (map elems ?As)\<rparr> =
            Some (mean_over_samples ?As)"
    using mean_axis0_stacked [OF ne(2) o(2)] .
  have mM: "jnp_mean_axis0 \<lparr>shape = length ?Ms # msh, elems = concat (map elems ?Ms)\<rparr> =
            Some (mean_over_samples ?Ms)"
    using mean_axis0_stacked [OF ne(3) o(3)] .
  have x: "add_bcast S (smul \<sigma> Z) =
           Some \<lparr>shape = length ?Xs # shape S, elems = concat (map elems ?Xs)\<rparr>"
    using add_bcast_batch [OF wfS Z(2,3)] .
  have x2: "jnp_reshape_rows \<lparr>shape = length ?Xs # shape S, elems = concat (map elems ?Xs)\<rparr> n =
            Some \<lparr>shape = [length ?Xs, prod_list (shape S)], elems = concat (map elems ?Xs)\<rparr>"
    using reshape_rows_stacked [OF ne(1) o(1)] n(1) by simp
  have a2: "jnp_reshape_rows \<lparr>shape = length ?As # shape S, elems = concat (map elems ?As)\<rparr> n =
            Some \<lparr>shape = [length ?As, prod_list (shape S)], elems = concat (map elems ?As)\<rparr>"
    using reshape_rows_stacked [OF ne(2) o(2)] n(2) by simp
  have e: "einsum_nd_nd_n
             \<lparr>shape = [length ?Xs, prod_list (shape S)], elems = concat (map elems ?Xs)\<rparr>
             \<lparr>shape = [length ?As, prod_list (shape S)], elems = concat (map elems ?As)\<rparr> =
           Some \<lparr>shape = [length ?Xs],
                 elems = map (\<lambda>i. \<Sum>j<prod_list (shape S). elems (?Xs ! i) ! j * elems (?As ! i) ! j)
                             [0..<length ?Xs]\<rparr>"
    using einsum_nd_nd_n_rows [OF o(1) o(2) len(1)] .
  have m: "jnp_mean \<lparr>shape = [length ?Xs],
                 elems = map (\<lambda>i. \<Sum>j<prod_list (shape S). elems (?Xs ! i) ! j * elems (?As ! i) ! j)
                             [0..<length ?Xs]\<rparr> =
           Some (scalar ((\<Sum>i<length ?Xs. \<Sum>j<prod_list (shape S).
                            elems (?Xs ! i) ! j * elems (?As ! i) ! j) / real (length ?Xs)))"
    using jnp_mean_upt [OF lpos] .
  have F: "spec_F_eps solver n \<sigma> noise S ncc rng =
           scalar ((\<Sum>i<length ?Xs. \<Sum>j<prod_list (shape S).
                            elems (?Xs ! i) ! j * elems (?As ! i) ! j) / real (length ?Xs))"
    by (simp add: spec_F_eps_def Z(4) Let_def)
  have "forward_pert solver n \<sigma> noise S ncc rng =
        Some (mean_over_samples ?As,
              scalar ((\<Sum>i<length ?Xs. \<Sum>j<prod_list (shape S).
                            elems (?Xs ! i) ! j * elems (?As ! i) ! j) / real (length ?Xs)),
              mean_over_samples ?Ms)"
    unfolding forward_pert_via_locals loc
    by (simp only: bind.simps prod.case mA mM x x2 a2 e m)
  then show ?thesis
    unfolding F by (simp add: spec_A_eps_def spec_M_eps_def Z(4))
qed


lemma rows_nth_elems:
  assumes "wf Z" and "shape Z = N # s" and "i < N" and "j < prod_list s"
  shows "elems (rows Z ! i) ! j = elems Z ! (i * prod_list s + j)"
proof -
  have len: "length (elems Z) = N * prod_list s" using assms(1,2) by (simp add: wf_def)
  have "i * prod_list s + prod_list s \<le> N * prod_list s"
    using assms(3) by (metis Suc_leI mult_Suc mult_le_mono1 add.commute)
  then have "i * prod_list s + j < length (elems Z)" using assms(4) len by simp
  then show ?thesis using assms(2,3,4) by (simp add: rows_def)
qed

lemma pert_jvp_locals_eq:
  "pert_jvp_locals solver n \<sigma> noise t p S ncc rng = forward_pert_locals solver n \<sigma> noise S ncc rng"
  by (simp add: pert_jvp_locals_def forward_pert_locals_def)

lemma einsum_nd_ne_e_d_value:
  assumes "\<forall>u \<in> set As. shape u = s \<and> wf u" and "length As = N"
    and "length gs = N * prod_list s" and "length ts = prod_list s"
  shows "einsum_nd_ne_e_d \<lparr>shape = [N, prod_list s], elems = concat (map elems As)\<rparr>
            \<lparr>shape = [N, prod_list s], elems = gs\<rparr> \<lparr>shape = [prod_list s], elems = ts\<rparr> =
         Some \<lparr>shape = [prod_list s],
               elems = map (\<lambda>j. \<Sum>i<N. elems (As ! i) ! j *
                                 (\<Sum>k<prod_list s. gs ! (i * prod_list s + k) * ts ! k))
                           [0..<prod_list s]\<rparr>"
proof -
  let ?d = "prod_list s"
  have u: "\<forall>xs \<in> set (map elems As). length xs = ?d"
    using assms(1) by (auto simp add: wf_def)
  have wa: "wf \<lparr>shape = [N, ?d], elems = concat (map elems As)\<rparr>"
    using length_concat_uniform [OF u] assms(2) by (simp add: wf_def)
  have wg: "wf \<lparr>shape = [N, ?d], elems = gs\<rparr>" using assms(3) by (simp add: wf_def)
  have wt: "wf \<lparr>shape = [?d], elems = ts\<rparr>" using assms(4) by (simp add: wf_def)
  have el: "\<And>j. j < ?d \<Longrightarrow>
      sum_list (map (\<lambda>i. sum_list (map (\<lambda>k.
          concat (map elems As) ! (i * ?d + j) * gs ! (i * ?d + k) * ts ! k) [0..<?d])) [0..<N]) =
      (\<Sum>i<N. elems (As ! i) ! j * (\<Sum>k<?d. gs ! (i * ?d + k) * ts ! k))"
  proof -
    fix j assume j: "j < ?d"
    have "\<And>i. i < N \<Longrightarrow> concat (map elems As) ! (i * ?d + j) = elems (As ! i) ! j"
      using nth_concat_uniform [OF u _ j] assms(2) by simp
    then have "(\<Sum>i<N. \<Sum>k<?d. concat (map elems As) ! (i * ?d + j) * gs ! (i * ?d + k) * ts ! k) =
          (\<Sum>i<N. elems (As ! i) ! j * (\<Sum>k<?d. gs ! (i * ?d + k) * ts ! k))"
      by (simp add: sum_distrib_left mult.assoc)
    then show "sum_list (map (\<lambda>i. sum_list (map (\<lambda>k.
          concat (map elems As) ! (i * ?d + j) * gs ! (i * ?d + k) * ts ! k) [0..<?d])) [0..<N]) =
      (\<Sum>i<N. elems (As ! i) ! j * (\<Sum>k<?d. gs ! (i * ?d + k) * ts ! k))"
      by (simp add: sum_list_upt)
  qed
  have "map (\<lambda>j. sum_list (map (\<lambda>i. sum_list (map (\<lambda>k.
          concat (map elems As) ! (i * ?d + j) * gs ! (i * ?d + k) * ts ! k) [0..<?d])) [0..<N]))
          [0..<?d] =
        map (\<lambda>j. \<Sum>i<N. elems (As ! i) ! j * (\<Sum>k<?d. gs ! (i * ?d + k) * ts ! k)) [0..<?d]"
    using el by simp
  then show ?thesis using wa wg wt by (simp add: einsum_nd_ne_e_d_def)
qed


lemma mean_over_samples_shape:
  assumes "ts \<noteq> []" and "\<forall>u \<in> set ts. shape u = s \<and> wf u"
  shows "shape (mean_over_samples ts) = s \<and> wf (mean_over_samples ts)"
proof -
  have "shape (hd ts) = s" using assms by (cases ts) simp_all
  then show ?thesis by (simp add: mean_over_samples_def wf_def)
qed

lemma pert_jvp_value:
  assumes "pert_contract solver n noise S ncc rng msh"
    and "\<sigma> \<noteq> 0" and "wf t" and "shape t = shape S"
  shows "pert_jvp grad solver n \<sigma> noise t p S ncc rng =
         Some (spec_dA grad solver n \<sigma> noise t S ncc rng,
               spec_dF (spec_A_eps solver n \<sigma> noise S ncc rng) t,
               jnp_zeros_like t)"
proof -
  from contract_samples [OF assms(1)] obtain Z where
    Z: "sample noise rng (n # map int (shape S)) = Some Z"
      "wf Z" "shape Z = nat n # shape S" "spec_samples noise n S rng = rows Z"
      "length (rows Z) = nat n" "rows Z \<noteq> []"
      "\<forall>r \<in> set (rows Z). shape r = shape S \<and> wf r"
    by blast
  let ?zs = "rows Z"
  let ?As = "spec_Ak_z solver \<sigma> S ncc ?zs"
  let ?Ms = "spec_Mk_z solver \<sigma> S ncc ?zs"
  let ?d = "prod_list (shape S)"
  let ?h = "\<lambda>z. - item (grad (log_prob noise) (scalar z))"
  let ?c = "1 / (of_int n * \<sigma>)"
  let ?e = "map (\<lambda>j. \<Sum>i<length ?As. elems (?As ! i) ! j *
              (\<Sum>k<?d. map ?h (elems Z) ! (i * ?d + k) * elems t ! k)) [0..<?d]"
  have pos: "0 < n" using assms(1) by (simp add: pert_contract_def)
  have o: "\<forall>u \<in> set ?As. shape u = shape S \<and> wf u"
    using contract_outputs [OF assms(1) Z(7), of \<sigma>] by simp
  have ne: "?As \<noteq> []" using Z(6) by (simp add: spec_Ak_z_def)
  have lenA: "length ?As = nat n" using Z(5) by (simp add: spec_Ak_z_def)
  have n: "n = int (length ?As)" using pos lenA by simp
  have lenZ: "length (elems Z) = nat n * ?d" using Z(2,3) by (simp add: wf_def)
  have lent: "length (elems t) = ?d" using assms(3,4) by (simp add: wf_def)
  have loc: "pert_jvp_locals solver n \<sigma> noise t p S ncc rng =
         Some (Z, \<lparr>shape = length ?As # shape S, elems = concat (map elems ?As)\<rparr>,
                  \<lparr>shape = length ?Ms # msh, elems = concat (map elems ?Ms)\<rparr>)"
    unfolding pert_jvp_locals_eq using locals_value [OF assms(1) Z(1)] .
  have nab: "neg (vmap_grad grad (log_prob noise) (jnp_reshape_flat Z)) =
             \<lparr>shape = [length (elems Z)], elems = map ?h (elems Z)\<rparr>"
    by (simp add: neg_def vmap_grad_def jnp_reshape_flat_def)
  have c: "py_float_div 1 (of_int n * \<sigma>) = Some ?c"
    using pos assms(2) by (simp add: py_float_div_def)
  have a2: "jnp_reshape_rows \<lparr>shape = length ?As # shape S, elems = concat (map elems ?As)\<rparr> n =
            Some \<lparr>shape = [length ?As, ?d], elems = concat (map elems ?As)\<rparr>"
    using reshape_rows_stacked [OF ne o] n by simp
  have g2: "jnp_reshape_rows \<lparr>shape = [length (elems Z)], elems = map ?h (elems Z)\<rparr> n =
            Some \<lparr>shape = [length ?As, ?d], elems = map ?h (elems Z)\<rparr>"
    using pos lenZ lenA by (simp add: jnp_reshape_rows_def)
  have tf: "jnp_reshape_flat t = \<lparr>shape = [?d], elems = elems t\<rparr>"
    using lent by (simp add: jnp_reshape_flat_def)
  have lg: "length (map ?h (elems Z)) = length ?As * ?d" using lenZ lenA by simp
  have e: "einsum_nd_ne_e_d \<lparr>shape = [length ?As, ?d], elems = concat (map elems ?As)\<rparr>
             \<lparr>shape = [length ?As, ?d], elems = map ?h (elems Z)\<rparr>
             \<lparr>shape = [?d], elems = elems t\<rparr> = Some \<lparr>shape = [?d], elems = ?e\<rparr>"
    using einsum_nd_ne_e_d_value [OF o refl lg lent] .
  have rs: "jnp_reshape (smul ?c \<lparr>shape = [?d], elems = ?e\<rparr>) (shape S) =
            Some \<lparr>shape = shape S, elems = map (\<lambda>x. ?c * x) ?e\<rparr>"
    by (simp add: jnp_reshape_def smul_def)
  have mA: "jnp_mean_axis0 \<lparr>shape = length ?As # shape S, elems = concat (map elems ?As)\<rparr> =
            Some (mean_over_samples ?As)"
    using mean_axis0_stacked [OF ne o] .
  have ms: "shape (mean_over_samples ?As) = shape S \<and> wf (mean_over_samples ?As)"
    using mean_over_samples_shape [OF ne o] .
  then have lm: "length (elems (mean_over_samples ?As)) = length (elems t)"
    using lent by (simp add: wf_def)
  have mu: "mul_tensor (mean_over_samples ?As) t =
            Some \<lparr>shape = shape S, elems = map2 (*) (elems (mean_over_samples ?As)) (elems t)\<rparr>"
    using ms assms(4) by (simp add: mul_tensor_def)
  have su: "jnp_sum \<lparr>shape = shape S, elems = map2 (*) (elems (mean_over_samples ?As)) (elems t)\<rparr> =
            spec_dF (mean_over_samples ?As) t"
    using sum_list_map2_nth [OF lm refl] by (simp add: jnp_sum_def spec_dF_def)
  have el: "\<And>i k. i < length ?As \<Longrightarrow> k < ?d \<Longrightarrow>
              map ?h (elems Z) ! (i * ?d + k) = spec_grad_log_noise grad noise (?zs ! i) ! k"
  proof -
    fix i k assume i: "i < length ?As" and k: "k < ?d"
    have i': "i < nat n" using i lenA by simp
    have "i * ?d + ?d \<le> nat n * ?d"
      using i' by (metis Suc_leI mult_Suc mult_le_mono1 add.commute)
    then have lt: "i * ?d + k < length (elems Z)" using k lenZ by simp
    have r: "elems (?zs ! i) ! k = elems Z ! (i * ?d + k)"
      using rows_nth_elems [OF Z(2,3) i' k] .
    have lr: "k < length (elems (?zs ! i))"
      using Z(7) Z(5) i' k by (simp add: wf_def)
    show "map ?h (elems Z) ! (i * ?d + k) = spec_grad_log_noise grad noise (?zs ! i) ! k"
      using lt r lr by (simp add: spec_grad_log_noise_def)
  qed
  have dA: "spec_dA grad solver n \<sigma> noise t S ncc rng =
            \<lparr>shape = shape S, elems = map (\<lambda>x. ?c * x) ?e\<rparr>"
    using el lenA Z(5) by (simp add: spec_dA_def Z(4) Let_def lent)
  have "pert_jvp grad solver n \<sigma> noise t p S ncc rng =
        Some (\<lparr>shape = shape S, elems = map (\<lambda>x. ?c * x) ?e\<rparr>,
              spec_dF (mean_over_samples ?As) t, jnp_zeros_like t)"
    unfolding pert_jvp_via_locals loc
    by (simp only: bind.simps prod.case Let_def nab c a2 g2 tf e rs mA mu su)
  then show ?thesis
    unfolding dA by (simp add: spec_A_eps_def Z(4))
qed


lemma forward_pert_c_as_solver:
  "forward_pert_c csolver n \<sigma> noise S ncc C rng =
   forward_pert (\<lambda>x k. csolver x k C) n \<sigma> noise S ncc rng"
  using forward_pert_c_ignores [of csolver ncc C "\<lambda>x k. csolver x k C" n \<sigma> noise S rng]
  by simp

lemma pert_jvp_c_as_solver:
  "pert_jvp_c g csolver n \<sigma> noise t p S ncc C rng =
   pert_jvp g (\<lambda>x k. csolver x k C) n \<sigma> noise t p S ncc rng"
  using pert_jvp_c_ignores [of csolver ncc C "\<lambda>x k. csolver x k C" g n \<sigma> noise t p S rng]
  by simp

lemma spec_shapes:
  assumes "pert_contract solver n noise S ncc rng msh"
  shows "shape (spec_A_eps solver n \<sigma> noise S ncc rng) = shape S \<and>
         wf (spec_A_eps solver n \<sigma> noise S ncc rng) \<and>
         shape (spec_F_eps solver n \<sigma> noise S ncc rng) = [] \<and>
         wf (spec_F_eps solver n \<sigma> noise S ncc rng) \<and>
         shape (spec_M_eps solver n \<sigma> noise S ncc rng) = msh \<and>
         wf (spec_M_eps solver n \<sigma> noise S ncc rng)"
proof -
  from contract_samples [OF assms] obtain Z where
    Z: "spec_samples noise n S rng = rows Z" "rows Z \<noteq> []"
      "\<forall>r \<in> set (rows Z). shape r = shape S \<and> wf r"
    by blast
  have o: "\<forall>u \<in> set (spec_Ak_z solver \<sigma> S ncc (rows Z)). shape u = shape S \<and> wf u"
    "\<forall>u \<in> set (spec_Mk_z solver \<sigma> S ncc (rows Z)). shape u = msh \<and> wf u"
    using contract_outputs [OF assms Z(3), of \<sigma>] by simp_all
  have ne: "spec_Ak_z solver \<sigma> S ncc (rows Z) \<noteq> []" "spec_Mk_z solver \<sigma> S ncc (rows Z) \<noteq> []"
    using Z(2) by (simp_all add: spec_Ak_z_def spec_Mk_z_def)
  show ?thesis
    using mean_over_samples_shape [OF ne(1) o(1)] mean_over_samples_shape [OF ne(2) o(2)]
    by (simp add: spec_A_eps_def spec_M_eps_def spec_F_eps_def Z(1) Let_def scalar_def wf_def)
qed

text \<open>
  C1. Under the contract, the forward evaluation (of either wrapper) returns
  the triple \<open>(A_eps, F_eps, M_eps)\<close> of the specification: \<open>A_eps\<close> and
  \<open>M_eps\<close> are the means over the samples of the solver's first and second
  output on \<open>S + sigma * Z\<^sub>n\<close>, and \<open>F_eps\<close> is the mean over the samples of
  \<open>\<Sum>\<^sub>j (S + sigma * Z\<^sub>n)\<^sub>j * (Ak_z[n])\<^sub>j\<close>. \<open>A_eps\<close> has the shape of \<open>S\<close>,
  \<open>F_eps\<close> is a scalar and \<open>M_eps\<close> has the shape of the solver's second
  output.
\<close>

theorem forward_pert_means:
  "(pert_contract solver n noise S ncc rng msh \<longrightarrow>
      forward_pert solver n \<sigma> noise S ncc rng =
        Some (spec_A_eps solver n \<sigma> noise S ncc rng,
              spec_F_eps solver n \<sigma> noise S ncc rng,
              spec_M_eps solver n \<sigma> noise S ncc rng) \<and>
      shape (spec_A_eps solver n \<sigma> noise S ncc rng) = shape S \<and>
      shape (spec_F_eps solver n \<sigma> noise S ncc rng) = [] \<and>
      shape (spec_M_eps solver n \<sigma> noise S ncc rng) = msh) \<and>
   (pert_contract (\<lambda>x k. csolver x k C) n noise S ncc rng msh' \<longrightarrow>
      forward_pert_c csolver n \<sigma> noise S ncc C rng =
        Some (spec_A_eps (\<lambda>x k. csolver x k C) n \<sigma> noise S ncc rng,
              spec_F_eps (\<lambda>x k. csolver x k C) n \<sigma> noise S ncc rng,
              spec_M_eps (\<lambda>x k. csolver x k C) n \<sigma> noise S ncc rng) \<and>
      shape (spec_A_eps (\<lambda>x k. csolver x k C) n \<sigma> noise S ncc rng) = shape S \<and>
      shape (spec_F_eps (\<lambda>x k. csolver x k C) n \<sigma> noise S ncc rng) = [] \<and>
      shape (spec_M_eps (\<lambda>x k. csolver x k C) n \<sigma> noise S ncc rng) = msh')"
  using forward_pert_value [of solver n noise S ncc rng msh \<sigma>]
    spec_shapes [of solver n noise S ncc rng msh \<sigma>]
    forward_pert_value [of "\<lambda>x k. csolver x k C" n noise S ncc rng msh' \<sigma>]
    spec_shapes [of "\<lambda>x k. csolver x k C" n noise S ncc rng msh' \<sigma>]
  by (simp add: forward_pert_c_as_solver)

lemma toy_contract:
  "pert_contract toy_solver 2 (Normal toy_random_normal) toy_S 2 (0::nat) [2]"
proof -
  have s: "sample (Normal toy_random_normal) (0::nat) (2 # map int (shape toy_S)) =
           Some \<lparr>shape = [2, 2], elems = [- 1, 0, 1, 2]\<rparr>"
    by code_simp
  have w: "wf \<lparr>shape = [2, 2], elems = [- 1, 0, 1, 2]\<rparr>" by (simp add: wf_def)
  have sh: "shape toy_S = [2]" "wf toy_S" by (simp_all add: toy_S_def wf_def)
  show ?thesis
    unfolding pert_contract_def s
    using w sh by (simp add: toy_solver_def jnp_zeros_like_def wf_def)
qed

lemma toy_contract_c:
  "pert_contract (\<lambda>x k. toy_csolver x k toy_tangent) 2 (Normal toy_random_normal) toy_S 2
     (0::nat) [2]"
  using toy_contract by (simp add: toy_csolver_def)

lemma toy_forward:
  "forward_pert toy_solver 2 (1 / 2) (Normal toy_random_normal) toy_S 2 (0::nat) = Some toy_out"
  by code_simp

lemma toy_forward_c:
  "forward_pert_c toy_csolver 2 (1 / 2) (Normal toy_random_normal) toy_S 2 toy_tangent (0::nat) =
   Some toy_out"
  by code_simp

theorem forward_pert_means_witness:
  "pert_contract toy_solver 2 (Normal toy_random_normal) toy_S 2 (0::nat) [2] \<and>
   pert_contract (\<lambda>x k. toy_csolver x k toy_tangent) 2 (Normal toy_random_normal) toy_S 2
     (0::nat) [2] \<and>
   forward_pert toy_solver 2 (1 / 2) (Normal toy_random_normal) toy_S 2 (0::nat) = Some toy_out \<and>
   spec_A_eps toy_solver 2 (1 / 2) (Normal toy_random_normal) toy_S 2 (0::nat) =
     \<lparr>shape = [2], elems = [1 / 2, 1]\<rparr> \<and>
   spec_F_eps toy_solver 2 (1 / 2) (Normal toy_random_normal) toy_S 2 (0::nat) =
     \<lparr>shape = [], elems = [7 / 4]\<rparr> \<and>
   spec_M_eps toy_solver 2 (1 / 2) (Normal toy_random_normal) toy_S 2 (0::nat) =
     \<lparr>shape = [2], elems = [0, 0]\<rparr> \<and>
   forward_pert_c toy_csolver 2 (1 / 2) (Normal toy_random_normal) toy_S 2 toy_tangent (0::nat) =
     Some (spec_A_eps (\<lambda>x k. toy_csolver x k toy_tangent) 2 (1 / 2) (Normal toy_random_normal)
             toy_S 2 0,
           spec_F_eps (\<lambda>x k. toy_csolver x k toy_tangent) 2 (1 / 2) (Normal toy_random_normal)
             toy_S 2 0,
           spec_M_eps (\<lambda>x k. toy_csolver x k toy_tangent) 2 (1 / 2) (Normal toy_random_normal)
             toy_S 2 0)"
  using toy_contract toy_contract_c toy_forward
    forward_pert_means [of toy_solver 2 "Normal toy_random_normal" toy_S 2 "0::nat" "[2]"
      "1 / 2" toy_csolver toy_tangent "[2]"]
  by (simp add: toy_out_def scalar_def)


lemma spec_dA_shape: "shape (spec_dA grad solver n \<sigma> noise t S ncc rng) = shape S \<and>
    wf (spec_dA grad solver n \<sigma> noise t S ncc rng)"
  by (simp add: spec_dA_def Let_def wf_def)

text \<open>
  C2. Under the contract, for \<open>sigma \<noteq> 0\<close> and a tangent \<open>t\<close> of the shape of
  \<open>S\<close>, the first component of the rule (of either wrapper) is
  \<open>1 / (num_samples * sigma) * \<Sum>\<^sub>n Ak_z[n] * (grad_log_noise[n] \<cdot> flatten t)\<close>
  in the shape of \<open>S\<close>, where \<open>grad_log_noise[n]\<close> is minus the gradient of
  \<open>log_prob\<close> at every entry of the \<open>n\<close>-th sample.
\<close>

theorem pert_jvp_argmax:
  "(pert_contract solver n noise S ncc rng msh \<and> \<sigma> \<noteq> 0 \<and> wf t \<and> shape t = shape S \<longrightarrow>
      map_option fst (pert_jvp grad solver n \<sigma> noise t p S ncc rng) =
        Some (spec_dA grad solver n \<sigma> noise t S ncc rng) \<and>
      shape (spec_dA grad solver n \<sigma> noise t S ncc rng) = shape S) \<and>
   (pert_contract (\<lambda>x k. csolver x k C) n noise S ncc rng msh' \<and> \<sigma> \<noteq> 0 \<and> wf t \<and>
    shape t = shape S \<longrightarrow>
      map_option fst (pert_jvp_c grad csolver n \<sigma> noise t p S ncc C rng) =
        Some (spec_dA grad (\<lambda>x k. csolver x k C) n \<sigma> noise t S ncc rng) \<and>
      shape (spec_dA grad (\<lambda>x k. csolver x k C) n \<sigma> noise t S ncc rng) = shape S)"
  using pert_jvp_value [of solver n noise S ncc rng msh \<sigma> t grad p]
    pert_jvp_value [of "\<lambda>x k. csolver x k C" n noise S ncc rng msh' \<sigma> t grad p]
  by (simp add: pert_jvp_c_as_solver spec_dA_shape)

lemma toy_jvp:
  "pert_jvp toy_grad toy_solver 2 (1 / 2) (Normal toy_random_normal) toy_tangent toy_out toy_S 2
     (0::nat) =
   Some (\<lparr>shape = [2], elems = [5, 4]\<rparr>, \<lparr>shape = [], elems = [5 / 2]\<rparr>,
         \<lparr>shape = [2], elems = [0, 0]\<rparr>)"
  by code_simp

lemma toy_jvp_c:
  "pert_jvp_c toy_grad toy_csolver 2 (1 / 2) (Normal toy_random_normal) toy_tangent toy_out
     toy_S 2 toy_tangent (0::nat) =
   Some (\<lparr>shape = [2], elems = [5, 4]\<rparr>, \<lparr>shape = [], elems = [5 / 2]\<rparr>,
         \<lparr>shape = [2], elems = [0, 0]\<rparr>)"
  by code_simp

lemma toy_tangent_ok: "wf toy_tangent \<and> shape toy_tangent = shape toy_S"
  by (simp add: toy_tangent_def toy_S_def wf_def)

theorem pert_jvp_argmax_witness:
  "pert_contract toy_solver 2 (Normal toy_random_normal) toy_S 2 (0::nat) [2] \<and>
   pert_contract (\<lambda>x k. toy_csolver x k toy_tangent) 2 (Normal toy_random_normal) toy_S 2
     (0::nat) [2] \<and>
   (1 / 2 :: real) \<noteq> 0 \<and> wf toy_tangent \<and> shape toy_tangent = shape toy_S \<and>
   spec_dA toy_grad toy_solver 2 (1 / 2) (Normal toy_random_normal) toy_tangent toy_S 2 (0::nat) =
     \<lparr>shape = [2], elems = [5, 4]\<rparr> \<and>
   spec_dA toy_grad (\<lambda>x k. toy_csolver x k toy_tangent) 2 (1 / 2) (Normal toy_random_normal)
     toy_tangent toy_S 2 (0::nat) = \<lparr>shape = [2], elems = [5, 4]\<rparr>"
proof -
  note th = pert_jvp_argmax [of toy_solver 2 "Normal toy_random_normal" toy_S 2 "0::nat" "[2]"
      "1 / 2" toy_tangent toy_grad toy_out toy_csolver toy_tangent "[2]"]
  have P: "pert_contract toy_solver 2 (Normal toy_random_normal) toy_S 2 (0::nat) [2] \<and>
      (1 / 2 :: real) \<noteq> 0 \<and> wf toy_tangent \<and> shape toy_tangent = shape toy_S"
    using toy_contract toy_tangent_ok by simp
  have Pc: "pert_contract (\<lambda>x k. toy_csolver x k toy_tangent) 2 (Normal toy_random_normal)
      toy_S 2 (0::nat) [2] \<and>
      (1 / 2 :: real) \<noteq> 0 \<and> wf toy_tangent \<and> shape toy_tangent = shape toy_S"
    using toy_contract_c toy_tangent_ok by simp
  have a: "map_option fst (pert_jvp toy_grad toy_solver 2 (1 / 2) (Normal toy_random_normal)
        toy_tangent toy_out toy_S 2 (0::nat)) =
      Some (spec_dA toy_grad toy_solver 2 (1 / 2) (Normal toy_random_normal) toy_tangent toy_S 2 0)"
    using th P by blast
  have b: "map_option fst (pert_jvp_c toy_grad toy_csolver 2 (1 / 2) (Normal toy_random_normal)
        toy_tangent toy_out toy_S 2 toy_tangent (0::nat)) =
      Some (spec_dA toy_grad (\<lambda>x k. toy_csolver x k toy_tangent) 2 (1 / 2)
        (Normal toy_random_normal) toy_tangent toy_S 2 0)"
    using th Pc by blast
  have a': "spec_dA toy_grad toy_solver 2 (1 / 2) (Normal toy_random_normal) toy_tangent toy_S 2
      (0::nat) = \<lparr>shape = [2], elems = [5, 4]\<rparr>"
    using a unfolding toy_jvp by simp
  have b': "spec_dA toy_grad (\<lambda>x k. toy_csolver x k toy_tangent) 2 (1 / 2)
      (Normal toy_random_normal) toy_tangent toy_S 2 (0::nat) = \<lparr>shape = [2], elems = [5, 4]\<rparr>"
    using b unfolding toy_jvp_c by simp
  show ?thesis using P Pc a' b' by blast
qed

text \<open>
  C3. Under the same hypotheses, the second component of the rule is the sum
  over the entries of \<open>A * t\<close>, where \<open>A\<close> is the first output of the forward
  evaluation on the same \<open>(S, ncc, rng)\<close>, which is the mean over the samples
  of \<open>Ak_z\<close>.
\<close>

theorem pert_jvp_max:
  "(pert_contract solver n noise S ncc rng msh \<and> \<sigma> \<noteq> 0 \<and> wf t \<and> shape t = shape S \<longrightarrow>
      (\<exists>A F M. forward_pert solver n \<sigma> noise S ncc rng = Some (A, F, M) \<and>
         A = mean_over_samples (spec_Ak_z solver \<sigma> S ncc (spec_samples noise n S rng)) \<and>
         map_option (fst \<circ> snd) (pert_jvp grad solver n \<sigma> noise t p S ncc rng) =
           Some (scalar (\<Sum>j<length (elems t). elems A ! j * elems t ! j)))) \<and>
   (pert_contract (\<lambda>x k. csolver x k C) n noise S ncc rng msh' \<and> \<sigma> \<noteq> 0 \<and> wf t \<and>
    shape t = shape S \<longrightarrow>
      (\<exists>A F M. forward_pert_c csolver n \<sigma> noise S ncc C rng = Some (A, F, M) \<and>
         A = mean_over_samples
               (spec_Ak_z (\<lambda>x k. csolver x k C) \<sigma> S ncc (spec_samples noise n S rng)) \<and>
         map_option (fst \<circ> snd) (pert_jvp_c grad csolver n \<sigma> noise t p S ncc C rng) =
           Some (scalar (\<Sum>j<length (elems t). elems A ! j * elems t ! j))))"
  using pert_jvp_value [of solver n noise S ncc rng msh \<sigma> t grad p]
    forward_pert_value [of solver n noise S ncc rng msh \<sigma>]
    pert_jvp_value [of "\<lambda>x k. csolver x k C" n noise S ncc rng msh' \<sigma> t grad p]
    forward_pert_value [of "\<lambda>x k. csolver x k C" n noise S ncc rng msh' \<sigma>]
  by (simp add: pert_jvp_c_as_solver forward_pert_c_as_solver spec_dF_def spec_A_eps_def)

theorem pert_jvp_max_witness:
  "pert_contract toy_solver 2 (Normal toy_random_normal) toy_S 2 (0::nat) [2] \<and>
   pert_contract (\<lambda>x k. toy_csolver x k toy_tangent) 2 (Normal toy_random_normal) toy_S 2
     (0::nat) [2] \<and>
   (1 / 2 :: real) \<noteq> 0 \<and> wf toy_tangent \<and> shape toy_tangent = shape toy_S \<and>
   forward_pert toy_solver 2 (1 / 2) (Normal toy_random_normal) toy_S 2 (0::nat) = Some toy_out \<and>
   fst toy_out = mean_over_samples
       (spec_Ak_z toy_solver (1 / 2) toy_S 2 (spec_samples (Normal toy_random_normal) 2 toy_S 0)) \<and>
   map_option (fst \<circ> snd) (pert_jvp toy_grad toy_solver 2 (1 / 2) (Normal toy_random_normal)
       toy_tangent toy_out toy_S 2 (0::nat)) =
     Some (scalar (\<Sum>j<length (elems toy_tangent). elems (fst toy_out) ! j * elems toy_tangent ! j)) \<and>
   fst toy_out = mean_over_samples
       (spec_Ak_z (\<lambda>x k. toy_csolver x k toy_tangent) (1 / 2) toy_S 2
          (spec_samples (Normal toy_random_normal) 2 toy_S 0))"
proof -
  note th = pert_jvp_max [of toy_solver 2 "Normal toy_random_normal" toy_S 2 "0::nat" "[2]"
      "1 / 2" toy_tangent toy_grad toy_out toy_csolver toy_tangent "[2]"]
  have P: "pert_contract toy_solver 2 (Normal toy_random_normal) toy_S 2 (0::nat) [2] \<and>
      (1 / 2 :: real) \<noteq> 0 \<and> wf toy_tangent \<and> shape toy_tangent = shape toy_S"
    using toy_contract toy_tangent_ok by simp
  have Pc: "pert_contract (\<lambda>x k. toy_csolver x k toy_tangent) 2 (Normal toy_random_normal)
      toy_S 2 (0::nat) [2] \<and>
      (1 / 2 :: real) \<noteq> 0 \<and> wf toy_tangent \<and> shape toy_tangent = shape toy_S"
    using toy_contract_c toy_tangent_ok by simp
  from th P obtain A F M where
    a: "forward_pert toy_solver 2 (1 / 2) (Normal toy_random_normal) toy_S 2 (0::nat) =
          Some (A, F, M)"
      "A = mean_over_samples
         (spec_Ak_z toy_solver (1 / 2) toy_S 2 (spec_samples (Normal toy_random_normal) 2 toy_S 0))"
      "map_option (fst \<circ> snd) (pert_jvp toy_grad toy_solver 2 (1 / 2) (Normal toy_random_normal)
          toy_tangent toy_out toy_S 2 (0::nat)) =
       Some (scalar (\<Sum>j<length (elems toy_tangent). elems A ! j * elems toy_tangent ! j))"
    by blast
  from th Pc obtain A' F' M' where
    b: "forward_pert_c toy_csolver 2 (1 / 2) (Normal toy_random_normal) toy_S 2 toy_tangent
          (0::nat) = Some (A', F', M')"
      "A' = mean_over_samples
         (spec_Ak_z (\<lambda>x k. toy_csolver x k toy_tangent) (1 / 2) toy_S 2
            (spec_samples (Normal toy_random_normal) 2 toy_S 0))"
    by blast
  have A: "A = fst toy_out" using a(1) unfolding toy_forward by (metis fst_conv option.inject)
  have A': "A' = fst toy_out" using b(1) unfolding toy_forward_c by (metis fst_conv option.inject)
  show ?thesis using P Pc toy_forward a(2,3) b(2) unfolding A A' by blast
qed

end
